theory Spec2Isabelle
  imports Main "HOL-Library.Sublist" "HOL-Library.AList"
begin

section \<open>Values, exceptions and the tool protocol\<close>

text \<open>
  Memory values are JSON-like data (\<^verbatim>\<open>Any\<close> in the source, received through the tool
  protocol). Floating-point numbers are left out.
\<close>

datatype json =
    JNull
  | JBool bool
  | JInt int
  | JStr string
  | JList "json list"
  | JObj "(string \<times> json) list"

text \<open>
  Python exceptions as values. The payload is the message \<^verbatim>\<open>str(e)\<close> (for an \<open>OSError\<close> the
  error text, without the number and the path; quotes inside a message are left out).
  Subclasses are folded into the class the source catches: \<^verbatim>\<open>IsADirectoryError\<close> and
  \<^verbatim>\<open>FileNotFoundError\<close> are \<open>OSError\<close>, \<^verbatim>\<open>JSONDecodeError\<close> is a \<open>ValueError\<close>; \<open>Exception\<close> is
  any other exception.
\<close>

datatype exn =
    ThrottlingException string
  | ModelTimeoutException string
  | ValueError string
  | KeyError string
  | TypeError string
  | OSError string
  | IndexError string
  | Exception string

fun str_exn :: "exn \<Rightarrow> string" where
  "str_exn (ThrottlingException m) = m"
| "str_exn (ModelTimeoutException m) = m"
| "str_exn (ValueError m) = m"
| "str_exn (KeyError m) = m"
| "str_exn (TypeError m) = m"
| "str_exn (OSError m) = m"
| "str_exn (IndexError m) = m"
| "str_exn (Exception m) = m"

text \<open>
  A tool call returns a \<^verbatim>\<open>CallToolResult\<close>: an ordered list of content items, of which the
  engine reads the \<^verbatim>\<open>.text\<close> field only, and the error flag of the protocol.
\<close>

datatype content_item = TextContent (item_text: "string option")

record call_tool_result =
  content :: "content_item list"
  isError :: bool

text \<open>The tools of the context-memory server, with their arguments.\<close>

datatype tool_call =
    add_or_update_memory_entry_call string json
  | add_or_update_memory_entries_call "(string \<times> json) list"
  | read_memory_entry_call string
  | read_memory_entries_call "string list"
  | list_memory_entries_call
  | delete_memory_entry_call string

text \<open>
  \<^verbatim>\<open>func: Callable[[str, dict], Any]\<close>: the bound \<^verbatim>\<open>call_tool\<close> of a tool client. It acts on
  the state behind the tool server and either raises at the client (\<open>Inl\<close>) or returns a result.
\<close>

type_synonym 's tool_func = "'s \<Rightarrow> tool_call \<Rightarrow> (exn + call_tool_result) \<times> 's"

datatype level = INFO | WARNING | ERROR

text \<open>
  What a run of the engine acts on: the state behind \<^verbatim>\<open>func\<close>, the calls made through
  \<^verbatim>\<open>func\<close> in order, the records given to the logger (the renderings of lists and of
  responses in a message are left out), and the agents invoked (profile and prompt of each
  \<^verbatim>\<open>invoke_with_prompt\<close>).
\<close>

record 's world =
  store :: 's
  tool_calls :: "tool_call list"
  logs :: "(level \<times> string) list"
  agent_calls :: "(string \<times> string) list"

definition call :: "'s tool_func \<Rightarrow> tool_call \<Rightarrow> 's world \<Rightarrow> (exn + call_tool_result) \<times> 's world" where
  "call func c w =
     (case func (store w) c of
        (r, s') \<Rightarrow> (r, w\<lparr>store := s', tool_calls := tool_calls w @ [c]\<rparr>))"

definition logger :: "level \<Rightarrow> string \<Rightarrow> 's world \<Rightarrow> 's world" where
  "logger l m w = w\<lparr>logs := logs w @ [(l, m)]\<rparr>"

definition nl :: string where
  "nl = [CHR 0x0A]"

definition no_entry :: string where
  "no_entry = ''No entry found for the given key.''"

section \<open>Interpolation of context variables\<close>

text \<open>
  The test the engine applies to a read result, written out at each place in the source:
  \<^verbatim>\<open>len(value.content) > 0 and value.content[0].text is not None
    and value.content[0].text != "No entry found for the given key."\<close>
\<close>

definition entry_found :: "call_tool_result \<Rightarrow> bool" where
  "entry_found v =
     (case content v of
        [] \<Rightarrow> False
      | c # _ \<Rightarrow> (case item_text c of None \<Rightarrow> False | Some t \<Rightarrow> t \<noteq> no_entry))"

text \<open>\<^verbatim>\<open>value.content[0].text\<close> where \<open>entry_found\<close> holds.\<close>

definition first_text :: "call_tool_result \<Rightarrow> string" where
  "first_text v = (case content v of c # _ \<Rightarrow> (case item_text c of Some t \<Rightarrow> t | None \<Rightarrow> []) | [] \<Rightarrow> [])"

text \<open>\<^verbatim>\<open>"\n".join(values)\<close>\<close>

fun join_lines :: "string list \<Rightarrow> string" where
  "join_lines [] = []"
| "join_lines [x] = x"
| "join_lines (x # y # ys) = x @ nl @ join_lines (y # ys)"

definition process_context_memory_return_value :: "call_tool_result \<Rightarrow> string option" where
  "process_context_memory_return_value response =
     (if length (content response) = 0 \<or> item_text (hd (content response)) = None
         \<or> item_text (hd (content response)) = Some no_entry
      then None
      else Some (join_lines (concat (map (\<lambda>c. case item_text c of None \<Rightarrow> [] | Some t \<Rightarrow> [t])
                                        (content response)))))"

text \<open>
  \<^verbatim>\<open>re.findall(r'\${([^}]+)}', prompt)\<close>: the matches from left to right, without overlap. A match
  at a position needs \<^verbatim>\<open>${\<close>, then the longest run of characters other than \<^verbatim>\<open>}\<close>, which
  must not be empty, then \<^verbatim>\<open>}\<close>; the search goes on behind the match, or at the next
  character where there is none.
\<close>

function find_variables :: "string \<Rightarrow> string list" where
  "find_variables [] = []"
| "find_variables (c # cs) =
     (if c = CHR ''$'' \<and> prefix ''{'' cs then
        (let body = tl cs;
             name = takeWhile (\<lambda>x. x \<noteq> CHR ''}'') body;
             rest = dropWhile (\<lambda>x. x \<noteq> CHR ''}'') body
         in if name \<noteq> [] \<and> rest \<noteq> [] then name # find_variables (tl rest)
            else find_variables cs)
      else find_variables cs)"
  by pat_completeness auto
termination
proof (relation "measure length")
  fix c :: char and cs body name rest :: string
  assume "c = CHR ''$'' \<and> prefix ''{'' cs" and b: "body = tl cs"
    and "name = takeWhile (\<lambda>x. x \<noteq> CHR ''}'') body"
    and r: "rest = dropWhile (\<lambda>x. x \<noteq> CHR ''}'') body"
    and "name \<noteq> [] \<and> rest \<noteq> []"
  then have "length (tl rest) < length rest" by (cases rest) auto
  moreover have "length rest \<le> length body" unfolding r by (rule length_dropWhile_le)
  moreover have "length body \<le> length cs" unfolding b by simp
  ultimately show "(tl rest, c # cs) \<in> measure length" by simp
qed auto

text \<open>
  \<^verbatim>\<open>s.replace(old, new)\<close>: every occurrence of \<open>old\<close> from left to right, without overlap; an
  empty \<open>old\<close> matches before each character and at the end.
\<close>

fun str_replace :: "string \<Rightarrow> string \<Rightarrow> string \<Rightarrow> string" where
  "str_replace [] new s = new @ concat (map (\<lambda>c. c # new) s)"
| "str_replace (p # ps) new [] = []"
| "str_replace (p # ps) new (c # cs) =
     (if prefix (p # ps) (c # cs) then new @ str_replace (p # ps) new (drop (length ps) cs)
      else c # str_replace (p # ps) new cs)"

text \<open>\<^verbatim>\<open>f"${{{var}}}"\<close>\<close>

definition placeholder :: "string \<Rightarrow> string" where
  "placeholder var = ''${'' @ var @ ''}''"

text \<open>
  The loop of \<^verbatim>\<open>replace_context_variables\<close> over the names found, on the prompt as it stands.
  \<open>str\<close> is Python's \<^verbatim>\<open>str()\<close> on the values of the override map. Whatever is raised in the
  body is caught and logged.
\<close>

fun replace_each ::
  "'s tool_func \<Rightarrow> ('v \<Rightarrow> string) \<Rightarrow> (string \<rightharpoonup> 'v) \<Rightarrow> string list \<Rightarrow> string \<Rightarrow> 's world
     \<Rightarrow> string \<times> 's world" where
  "replace_each func str overrwirte_contex_memory [] prompt w = (prompt, w)"
| "replace_each func str overrwirte_contex_memory (var # variables) prompt w =
     (case overrwirte_contex_memory var of
        Some x \<Rightarrow>
          replace_each func str overrwirte_contex_memory variables
            (str_replace (placeholder var) (str x) prompt) w
      | None \<Rightarrow>
          (case call func (read_memory_entry_call var) w of
             (Inl e, w') \<Rightarrow>
               replace_each func str overrwirte_contex_memory variables prompt
                 (logger ERROR (''Error replacing variable '' @ var @ '': '' @ str_exn e) w')
           | (Inr v, w') \<Rightarrow>
               if entry_found v then
                 replace_each func str overrwirte_contex_memory variables
                   (str_replace (placeholder var) (first_text v) prompt)
                   (logger INFO (''Replacing variable '' @ var @ '' with value: '' @ first_text v) w')
               else
                 replace_each func str overrwirte_contex_memory variables prompt
                   (logger WARNING (''No value found in memory for variable: '' @ var) w')))"

definition replace_context_variables ::
  "string \<Rightarrow> 's tool_func \<Rightarrow> ('v \<Rightarrow> string) \<Rightarrow> (string \<rightharpoonup> 'v) \<Rightarrow> 's world \<Rightarrow> string \<times> 's world" where
  "replace_context_variables prompt func str overrwirte_contex_memory w =
     replace_each func str overrwirte_contex_memory (find_variables prompt) prompt w"

section \<open>The context-memory server\<close>

text \<open>
  What the server and the tool framework get from outside the repository. Of the
  interpreter's library: \<^verbatim>\<open>json.dumps\<close>, \<^verbatim>\<open>json.loads\<close> (\<open>None\<close> where it raises
  \<^verbatim>\<open>JSONDecodeError\<close>) and the framework's rendering of a result that is not a string. Of the
  operating system: what \<^verbatim>\<open>os.path.join(memory_dir, entry_key)\<close> reaches for a key with a path
  separator (an absolute path, a path that leaves the directory or goes through a
  subdirectory): a file that can be opened and created, a directory, or nothing that can be
  opened.
\<close>

datatype reach = Reaches | ReachesDirectory | Unreachable

record library =
  json_dumps :: "json \<Rightarrow> string"
  json_loads :: "string \<Rightarrow> json option"
  to_json :: "json \<Rightarrow> string"
  os_path :: "string \<Rightarrow> reach"

text \<open>
  The server's state: the module-level dictionary \<^verbatim>\<open>memory\<close> (in insertion order) and, for the
  backing directory \<^verbatim>\<open>memory_dir\<close>, the files that keys reach, each under the path its key
  gives with its content: a name for a file of the directory (one file per key), a path with
  separators for a file elsewhere. It is \<open>None\<close> while the directory does not exist (before
  the start of the server). Strings are byte strings.
\<close>

record memory_server =
  memory :: "(string \<times> json) list"
  memory_dir :: "(string \<times> string) list option"

text \<open>
  What \<^verbatim>\<open>os.path.join(memory_dir, entry_key)\<close> names. The empty key and \<^verbatim>\<open>.\<close> name the
  directory itself, \<^verbatim>\<open>..\<close> its parent. A key with a NUL character is no path. A key with a
  path separator names what the operating system reaches by it; a file so reached is taken
  to be a file of its own, not one that another key names. Any other key names the file of
  that name in the directory, unless the name is longer than the 255 bytes a file name may
  have. The files are those that keys reach while the backing directory exists; the server
  makes the directory before it serves a tool.
\<close>

datatype place = ADirectory | AFile string | NoSuchPath | NameTooLong | NoPath

definition place_of :: "library \<Rightarrow> string \<Rightarrow> place" where
  "place_of lib entry_key =
     (if entry_key = [] \<or> entry_key = ''.'' \<or> entry_key = ''..'' then ADirectory
      else if CHR 0x00 \<in> set entry_key then NoPath
      else if CHR ''/'' \<in> set entry_key then
        (case os_path lib entry_key of
           Reaches \<Rightarrow> AFile entry_key
         | ReachesDirectory \<Rightarrow> ADirectory
         | Unreachable \<Rightarrow> NoSuchPath)
      else if length entry_key > 255 then NameTooLong
      else AFile entry_key)"

text \<open>\<^verbatim>\<open>with open(path, "w") as f: f.write(data)\<close>\<close>

definition write_file ::
  "library \<Rightarrow> string \<Rightarrow> string \<Rightarrow> (string \<times> string) list option
     \<Rightarrow> exn + (string \<times> string) list" where
  "write_file lib entry_key data dir =
     (case place_of lib entry_key of
        NoPath \<Rightarrow> Inl (ValueError ''embedded null byte'')
      | ADirectory \<Rightarrow> Inl (OSError ''Is a directory'')
      | NoSuchPath \<Rightarrow> Inl (OSError ''No such file or directory'')
      | NameTooLong \<Rightarrow> Inl (OSError ''File name too long'')
      | AFile path \<Rightarrow>
          (case dir of
             None \<Rightarrow> Inl (OSError ''No such file or directory'')
           | Some files \<Rightarrow> Inr (AList.update path data files)))"

text \<open>\<^verbatim>\<open>os.path.exists(path)\<close>\<close>

definition path_exists :: "library \<Rightarrow> string \<Rightarrow> (string \<times> string) list option \<Rightarrow> bool" where
  "path_exists lib entry_key dir =
     (case dir of
        None \<Rightarrow> False
      | Some files \<Rightarrow>
          (case place_of lib entry_key of
             ADirectory \<Rightarrow> True
           | NoPath \<Rightarrow> False
           | NoSuchPath \<Rightarrow> False
           | NameTooLong \<Rightarrow> False
           | AFile path \<Rightarrow> map_of files path \<noteq> None))"

text \<open>\<^verbatim>\<open>with open(path, "r") as f: f.read()\<close>\<close>

definition read_file ::
  "library \<Rightarrow> string \<Rightarrow> (string \<times> string) list option \<Rightarrow> exn + string" where
  "read_file lib entry_key dir =
     (case place_of lib entry_key of
        NoPath \<Rightarrow> Inl (ValueError ''embedded null byte'')
      | ADirectory \<Rightarrow>
          (case dir of
             None \<Rightarrow> Inl (OSError ''No such file or directory'')
           | Some files \<Rightarrow> Inl (OSError ''Is a directory''))
      | NoSuchPath \<Rightarrow> Inl (OSError ''No such file or directory'')
      | NameTooLong \<Rightarrow> Inl (OSError ''File name too long'')
      | AFile path \<Rightarrow>
          (case dir of
             None \<Rightarrow> Inl (OSError ''No such file or directory'')
           | Some files \<Rightarrow>
               (case map_of files path of
                  None \<Rightarrow> Inl (OSError ''No such file or directory'')
                | Some data \<Rightarrow> Inr data)))"

text \<open>\<^verbatim>\<open>os.remove(path)\<close>\<close>

definition remove_file ::
  "library \<Rightarrow> string \<Rightarrow> (string \<times> string) list option
     \<Rightarrow> exn + (string \<times> string) list option" where
  "remove_file lib entry_key dir =
     (case place_of lib entry_key of
        NoPath \<Rightarrow> Inl (ValueError ''embedded null byte'')
      | ADirectory \<Rightarrow>
          (case dir of
             None \<Rightarrow> Inl (OSError ''No such file or directory'')
           | Some files \<Rightarrow> Inl (OSError ''Is a directory''))
      | NoSuchPath \<Rightarrow> Inl (OSError ''No such file or directory'')
      | NameTooLong \<Rightarrow> Inl (OSError ''File name too long'')
      | AFile path \<Rightarrow>
          (case dir of
             None \<Rightarrow> Inl (OSError ''No such file or directory'')
           | Some files \<Rightarrow>
               (case map_of files path of
                  None \<Rightarrow> Inl (OSError ''No such file or directory'')
                | Some data \<Rightarrow> Inr (Some (AList.delete path files)))))"

text \<open>The entry is put into \<^verbatim>\<open>memory\<close> first; the file is written after that.\<close>

definition add_or_update_memory_entry ::
  "library \<Rightarrow> string \<Rightarrow> json \<Rightarrow> memory_server \<Rightarrow> (exn + bool) \<times> memory_server" where
  "add_or_update_memory_entry lib entry_key v s =
     (let s1 = s\<lparr>memory := AList.update entry_key v (memory s)\<rparr> in
      case write_file lib entry_key (json_dumps lib v) (memory_dir s1) of
        Inl e \<Rightarrow> (Inl e, s1)
      | Inr files \<Rightarrow> (Inr True, s1\<lparr>memory_dir := Some files\<rparr>))"

fun add_or_update_memory_entries ::
  "library \<Rightarrow> (string \<times> json) list \<Rightarrow> memory_server \<Rightarrow> (exn + bool) \<times> memory_server" where
  "add_or_update_memory_entries lib [] s = (Inr True, s)"
| "add_or_update_memory_entries lib ((entry_key, v) # entries_dict) s =
     (case add_or_update_memory_entry lib entry_key v s of
        (Inl e, s') \<Rightarrow> (Inl e, s')
      | (Inr _, s') \<Rightarrow> add_or_update_memory_entries lib entries_dict s')"

definition read_memory_entry ::
  "library \<Rightarrow> string \<Rightarrow> memory_server \<Rightarrow> (exn + json) \<times> memory_server" where
  "read_memory_entry lib entry_key s =
     (case map_of (memory s) entry_key of
        Some v \<Rightarrow> (Inr v, s)
      | None \<Rightarrow>
          if path_exists lib entry_key (memory_dir s) then
            (case read_file lib entry_key (memory_dir s) of
               Inl e \<Rightarrow> (Inl e, s)
             | Inr data \<Rightarrow>
                 (case json_loads lib data of
                    None \<Rightarrow> (Inl (ValueError ''JSONDecodeError''), s)
                  | Some v \<Rightarrow> (Inr v, s\<lparr>memory := AList.update entry_key v (memory s)\<rparr>)))
          else (Inr (JStr no_entry), s))"

fun read_memory_entries_loop ::
  "library \<Rightarrow> string list \<Rightarrow> (string \<times> json) list \<Rightarrow> memory_server
     \<Rightarrow> (exn + json) \<times> memory_server" where
  "read_memory_entries_loop lib [] result s = (Inr (JObj result), s)"
| "read_memory_entries_loop lib (key # keys) result s =
     (case read_memory_entry lib key s of
        (Inl e, s') \<Rightarrow> (Inl e, s')
      | (Inr v, s') \<Rightarrow> read_memory_entries_loop lib keys (AList.update key v result) s')"

definition read_memory_entries ::
  "library \<Rightarrow> string list \<Rightarrow> memory_server \<Rightarrow> (exn + json) \<times> memory_server" where
  "read_memory_entries lib entry_key s = read_memory_entries_loop lib entry_key [] s"

definition list_memory_entries :: "memory_server \<Rightarrow> (exn + json) \<times> memory_server" where
  "list_memory_entries s = (Inr (JList (map (\<lambda>(k, _). JStr k) (memory s))), s)"

definition delete_memory_entry ::
  "library \<Rightarrow> string \<Rightarrow> memory_server \<Rightarrow> (exn + bool) \<times> memory_server" where
  "delete_memory_entry lib entry_key s =
     (let s1 = s\<lparr>memory := AList.delete entry_key (memory s)\<rparr> in
      if path_exists lib entry_key (memory_dir s1) then
        (case remove_file lib entry_key (memory_dir s1) of
           Inl e \<Rightarrow> (Inl e, s1)
         | Inr dir \<Rightarrow> (Inr True, s1\<lparr>memory_dir := dir\<rparr>))
      else (Inr True, s1))"




subsection \<open>The server behind the tool protocol\<close>

text \<open>
  The tool framework turns what a tool returns into content items: nothing for \<^verbatim>\<open>None\<close>, the
  items of each element for a list, one text item for a string, and one text item holding
  the rendering for any other value. What a tool raises comes back as a result with the
  error flag set and the message as its text; the client does not raise.
\<close>

fun convert_to_content :: "library \<Rightarrow> json \<Rightarrow> content_item list" where
  "convert_to_content lib JNull = []"
| "convert_to_content lib (JList xs) = concat (map (convert_to_content lib) xs)"
| "convert_to_content lib (JStr s) = [TextContent (Some s)]"
| "convert_to_content lib v = [TextContent (Some (to_json lib v))]"

definition served ::
  "library \<Rightarrow> string \<Rightarrow> (exn + json) \<times> memory_server \<Rightarrow> (exn + call_tool_result) \<times> memory_server" where
  "served lib name r =
     (case r of
        (Inr v, s) \<Rightarrow> (Inr \<lparr>content = convert_to_content lib v, isError = False\<rparr>, s)
      | (Inl e, s) \<Rightarrow>
          (Inr \<lparr>content = [TextContent (Some (''Error executing tool '' @ name @ '': '' @ str_exn e))],
                isError = True\<rparr>, s))"

definition as_json :: "(exn + bool) \<times> memory_server \<Rightarrow> (exn + json) \<times> memory_server" where
  "as_json r = (case r of (Inl e, s) \<Rightarrow> (Inl e, s) | (Inr b, s) \<Rightarrow> (Inr (JBool b), s))"

fun memory_func :: "library \<Rightarrow> memory_server tool_func" where
  "memory_func lib s (add_or_update_memory_entry_call entry_key v) =
     served lib ''add_or_update_memory_entry'' (as_json (add_or_update_memory_entry lib entry_key v s))"
| "memory_func lib s (add_or_update_memory_entries_call entries_dict) =
     served lib ''add_or_update_memory_entries'' (as_json (add_or_update_memory_entries lib entries_dict s))"
| "memory_func lib s (read_memory_entry_call entry_key) =
     served lib ''read_memory_entry'' (read_memory_entry lib entry_key s)"
| "memory_func lib s (read_memory_entries_call entry_key) =
     served lib ''read_memory_entries'' (read_memory_entries lib entry_key s)"
| "memory_func lib s list_memory_entries_call =
     served lib ''list_memory_entries'' (list_memory_entries s)"
| "memory_func lib s (delete_memory_entry_call entry_key) =
     served lib ''delete_memory_entry'' (as_json (delete_memory_entry lib entry_key s))"

section \<open>The step engine\<close>

text \<open>The fields of \<^verbatim>\<open>Step\<close> that execution reads (\<^verbatim>\<open>parent\<close> is a back reference only).\<close>

record step =
  step_id :: string
  skippable :: bool

text \<open>\<^verbatim>\<open>parent_id\<close> is \<^verbatim>\<open>None\<close> at the top level; \<^verbatim>\<open>if parent_id\<close> is false for the empty string too.\<close>

definition get_id :: "'a step_scheme \<Rightarrow> string option \<Rightarrow> string" where
  "get_id self parent_id =
     (let prefix' = (case parent_id of
                       None \<Rightarrow> []
                     | Some p \<Rightarrow> if p \<noteq> [] then p @ ''__'' else [])
      in prefix' @ step_id self)"

text \<open>
  \<^verbatim>\<open>Step.execute\<close>. The abstract method \<^verbatim>\<open>actual_execute\<close> is a parameter; it receives the
  arguments \<^verbatim>\<open>execute\<close> passes on (the tool clients are part of the agent below).
\<close>

type_synonym ('s, 'v) actual_execute =
  "string list \<Rightarrow> string \<Rightarrow> 's tool_func \<Rightarrow> string list \<Rightarrow> (string \<rightharpoonup> 'v) \<Rightarrow> string option
     \<Rightarrow> 's world \<Rightarrow> (exn + unit) \<times> 's world"

definition execute ::
  "('s, 'v) actual_execute \<Rightarrow> 'a step_scheme \<Rightarrow> string list \<Rightarrow> string \<Rightarrow> 's tool_func
     \<Rightarrow> string list \<Rightarrow> (string \<rightharpoonup> 'v) \<Rightarrow> string option \<Rightarrow> 's world \<Rightarrow> (exn + unit) \<times> 's world" where
  "execute actual_execute self summary prefix' func profiles overrwirte_contex_memory parent_id w =
     (let w0 = logger INFO (''Checking if step '' @ get_id self parent_id @ '' is done before or not'') w
      in case call func (read_memory_entry_call (get_id self parent_id @ ''_status'')) w0 of
           (Inl e, w1) \<Rightarrow> (Inl e, w1)
         | (Inr v, w1) \<Rightarrow>
             if skippable self \<and> length (content v) > 0
                \<and> item_text (hd (content v)) = Some ''done''
             then (Inr (), logger INFO (''Step '' @ get_id self parent_id @ '' is done before'') w1)
             else
               (case actual_execute summary prefix' func profiles overrwirte_contex_memory parent_id w1 of
                  (Inl e, w2) \<Rightarrow> (Inl e, w2)
                | (Inr _, w2) \<Rightarrow>
                    (case call func (add_or_update_memory_entry_call
                                       (get_id self parent_id @ ''_status'') (JStr ''done'')) w2 of
                       (Inl e, w3) \<Rightarrow> (Inl e, w3)
                     | (Inr _, w3) \<Rightarrow> (Inr (), w3))))"

text \<open>
  An agent, as far as the engine uses it, is its \<^verbatim>\<open>invoke_with_prompt(prompt)\<close>: a conversation
  with the model whose tool calls act on the state behind the tool servers; it raises or
  returns the final text. \<^verbatim>\<open>_create_agent(mcp_clients, profile_name)\<close> makes the agent of a
  profile (the client of the provider and the tools that the tool clients list), or raises;
  what it does for each profile is a parameter.
\<close>

type_synonym 's agent = "string \<Rightarrow> 's \<Rightarrow> (exn + string option) \<times> 's"

type_synonym 's agents = "string \<Rightarrow> 's \<Rightarrow> (exn + 's agent) \<times> 's"

definition create_agent :: "'s agents \<Rightarrow> string \<Rightarrow> 's world \<Rightarrow> (exn + 's agent) \<times> 's world" where
  "create_agent agents profile_name w =
     (case agents profile_name (store w) of
        (r, s') \<Rightarrow> (r, w\<lparr>store := s'\<rparr>))"

definition invoke_agent ::
  "'s agent \<Rightarrow> string \<Rightarrow> string \<Rightarrow> 's world \<Rightarrow> (exn + string option) \<times> 's world" where
  "invoke_agent agent profile prompt w =
     (case agent prompt (store w) of
        (r, s') \<Rightarrow> (r, w\<lparr>store := s', agent_calls := agent_calls w @ [(profile, prompt)]\<rparr>))"

subsection \<open>ForEach: the list to iterate over\<close>

record 's foreach = step +
  variable_name :: string
  expression :: "string option"
  is_parallel :: bool
  expression_list_func :: "(unit \<Rightarrow> exn + json list) option"
  expression_list_func_with_params ::
    "('s tool_func \<Rightarrow> (string \<rightharpoonup> json) \<Rightarrow> 's world \<Rightarrow> (exn + json list) \<times> 's world) option"

text \<open>\<^verbatim>\<open>[item.text for item in value.content]\<close>\<close>

definition texts :: "call_tool_result \<Rightarrow> json list" where
  "texts v = map (\<lambda>item. case item_text item of None \<Rightarrow> JNull | Some t \<Rightarrow> JStr t) (content v)"

definition expression_list_prompt ::
  "('s, 'a) foreach_scheme \<Rightarrow> string list \<Rightarrow> string \<Rightarrow> string option \<Rightarrow> string" where
  "expression_list_prompt self summary prefix' parent_id =
     nl @ join_lines summary @ nl
     @ nl
     @ ''## Current Step ('' @ prefix' @ '') Details:'' @ nl
     @ ''ForEach '' @ variable_name self @ '' in ''
       @ (case expression self of None \<Rightarrow> ''None'' | Some e \<Rightarrow> e) @ '' will do the following:'' @ nl
     @ nl
     @ ''### Current Step Guidelines:'' @ nl
     @ '' - Make sure to determine the list that will be processed, and store it in context memory using key `''
       @ get_id self parent_id @ ''_expression_list`.'' @ nl
     @ '' - Do not do any looping or actions on this list. This will be done later.'' @ nl
     @ '' - If the list is for file paths, so do not return the fullpath of each file, just return the relative path to the input given path.'' @ nl"

text \<open>
  \<^verbatim>\<open>ForEach._get_expression_list\<close>; the list assigned to \<^verbatim>\<open>self.expression_list\<close> is the result.
  Where the first read finds no list, the agent is made first; the prompt is interpolated
  after that, and the agent is invoked with it.
\<close>

definition get_expression_list ::
  "('s, 'a) foreach_scheme \<Rightarrow> 's agents \<Rightarrow> (json \<Rightarrow> string) \<Rightarrow> string list \<Rightarrow> string
     \<Rightarrow> 's tool_func \<Rightarrow> string \<Rightarrow> (string \<rightharpoonup> json) \<Rightarrow> string option \<Rightarrow> 's world
     \<Rightarrow> (exn + json list) \<times> 's world" where
  "get_expression_list self agents str summary prefix' func profile overrwirte_contex_memory parent_id w =
     (case expression_list_func self of
        Some f \<Rightarrow>
          (case f () of
             Inl e \<Rightarrow> (Inl e, w)
           | Inr xs \<Rightarrow> (Inr xs, logger INFO (''Step '' @ get_id self parent_id @ '' loop list is'') w))
      | None \<Rightarrow>
      (case expression_list_func_with_params self of
        Some f \<Rightarrow>
          (case f func overrwirte_contex_memory w of
             (Inl e, w') \<Rightarrow> (Inl e, w')
           | (Inr xs, w') \<Rightarrow> (Inr xs, logger INFO (''Step '' @ get_id self parent_id @ '' loop list is'') w'))
      | None \<Rightarrow>
      (let w0 = logger INFO (''Checking if expression list is calculated before or not for step ''
                               @ get_id self parent_id) w
       in case call func (read_memory_entry_call (get_id self parent_id @ ''_expression_list'')) w0 of
            (Inl e, w1) \<Rightarrow> (Inl e, w1)
          | (Inr v, w1) \<Rightarrow>
              if entry_found v then (Inr (texts v), w1)
              else
                (let w2 = logger INFO (''Calculating the expression list for step ''
                                         @ get_id self parent_id) w1
                 in case create_agent agents profile w2 of
                      (Inl e, wa) \<Rightarrow> (Inl e, wa)
                    | (Inr agent, wa) \<Rightarrow>
                   case replace_context_variables
                           (expression_list_prompt self summary prefix' parent_id)
                           func str overrwirte_contex_memory wa of
                      (prompt, w3) \<Rightarrow>
                        (case invoke_agent agent profile prompt w3 of
                           (Inl e, w4) \<Rightarrow> (Inl e, w4)
                         | (Inr response, w4) \<Rightarrow>
                             (let w5 = logger INFO (''Reading the calculated expression list for step ''
                                                      @ get_id self parent_id)
                                         (logger INFO (''Calculating the expression list for task ''
                                                         @ get_id self parent_id @ '' completed'') w4)
                              in case call func (read_memory_entry_call
                                                   (get_id self parent_id @ ''_expression_list'')) w5 of
                                   (Inl e, w6) \<Rightarrow> (Inl e, w6)
                                 | (Inr v', w6) \<Rightarrow>
                                     if entry_found v' then
                                       (Inr (texts v'),
                                        logger INFO (''Step '' @ get_id self parent_id @ '' loop list is'') w6)
                                     else (Inl (Exception ''Failed to calculate expression_list''), w6)))))))"

subsection \<open>ForEach: the tasks of parallel mode\<close>

text \<open>
  The loop of \<^verbatim>\<open>ForEach.actual_execute\<close> that creates one \<^verbatim>\<open>_process_iteration_wrapper\<close> per
  item: the item, the profile \<^verbatim>\<open>profiles[pid]\<close> and the iteration number of each, in the order
  of creation. How \<^verbatim>\<open>asyncio.gather\<close> then interleaves the wrappers is not part of this
  function.
\<close>

fun parallel_tasks ::
  "json list \<Rightarrow> string list \<Rightarrow> nat \<Rightarrow> nat \<Rightarrow> exn + (json \<times> string \<times> nat) list" where
  "parallel_tasks [] profiles pid current_iteration = Inr []"
| "parallel_tasks (item # expression_list) profiles pid current_iteration =
     (if pid < length profiles then
        (case parallel_tasks expression_list profiles ((pid + 1) mod length profiles)
                (current_iteration + 1) of
           Inl e \<Rightarrow> Inl e
         | Inr tasks \<Rightarrow> Inr ((item, profiles ! pid, current_iteration) # tasks))
      else Inl (IndexError ''list index out of range''))"

section \<open>The agent\<close>

text \<open>
  A completion of the model: the content blocks of \<^verbatim>\<open>response['output']['message']\<close> and
  \<^verbatim>\<open>response['stopReason']\<close>. A reasoning block is logged only.
\<close>

record tool_use =
  toolUseId :: string
  tool_name :: string
  tool_input :: json

datatype content_block =
    Text string
  | ToolUse tool_use
  | ReasoningContent "string option"

record response =
  output_message_content :: "content_block list"
  stopReason :: string

text \<open>
  The items of a user turn: the prompt, the result of a tool (of a type \<open>'r\<close> that
  \<^verbatim>\<open>execute_tool\<close> returns, JSON data), or \<^verbatim>\<open>{'Error': e}\<close> holding the exception object.
\<close>

datatype 'r user_item =
    UserText string
  | ToolResult 'r
  | ErrorItem exn

datatype 'r message =
    User "'r user_item list"
  | Assistant "content_block list"

text \<open>What one call of \<^verbatim>\<open>client.converse\<close> does: it raises, or it returns a completion.\<close>

datatype outcome = Raises exn | Returns response

text \<open>
  \<^verbatim>\<open>self.tools.execute_tool(tool_request)\<close>, a parameter: it acts on the state \<open>'t\<close> behind the
  tools and raises or returns the tool's result.
\<close>

type_synonym ('r, 't) execute_tool = "tool_use \<Rightarrow> 't \<Rightarrow> (exn + 'r) \<times> 't"

text \<open>
  The agent and what it talks to: the transcript, the output tags, what the provider does at
  each of the calls to come (\<open>client\<close>), the state behind the tools, and the seconds spent in
  \<^verbatim>\<open>time.sleep\<close>.
\<close>

record ('r, 't) converse_agent =
  messages :: "'r message list"
  response_output_tags :: "string list"
  client :: "outcome list"
  tools :: 't
  slept :: nat

text \<open>
  \<^verbatim>\<open>json.dumps(content, indent=2)\<close> in the first line of \<^verbatim>\<open>invoke\<close> raises \<^verbatim>\<open>TypeError\<close> on an
  exception object.
\<close>

fun json_serializable :: "'r user_item \<Rightarrow> bool" where
  "json_serializable (UserText _) = True"
| "json_serializable (ToolResult _) = True"
| "json_serializable (ErrorItem _) = False"

text \<open>
  The \<^verbatim>\<open>while True\<close> loop of \<^verbatim>\<open>invoke\<close> over the outcomes of the provider, with the seconds
  slept so far. The result is \<open>None\<close> when the outcomes are used up before the loop is left.
\<close>

fun converse_loop :: "outcome list \<Rightarrow> nat \<Rightarrow> (exn + response) option \<times> outcome list \<times> nat" where
  "converse_loop [] t = (None, [], t)"
| "converse_loop (Returns response # rest) t = (Some (Inr response), rest, t)"
| "converse_loop (Raises (ThrottlingException m) # rest) t = converse_loop rest (t + 5)"
| "converse_loop (Raises (ModelTimeoutException m) # rest) t = converse_loop rest (t + 5)"
| "converse_loop (Raises e # rest) t = (Some (Inl e), rest, t)"

lemma converse_loop_shorter:
  "converse_loop os t = (Some r, rest, t') \<Longrightarrow> length rest < length os"
  by (induction os t rule: converse_loop.induct) auto

text \<open>The text of the first content block that has one.\<close>

fun first_text_block :: "content_block list \<Rightarrow> string option" where
  "first_text_block [] = None"
| "first_text_block (Text t # _) = Some t"
| "first_text_block (_ # items) = first_text_block items"

text \<open>
  \<^verbatim>\<open>re.search(f"(?s).*{re.escape(a)}(.*?){re.escape(b)}", text)\<close>: group 1 of the match. The
  greedy \<^verbatim>\<open>.*\<close> takes the last \<open>a\<close> that has a \<open>b\<close> behind it, the lazy group ends at the
  first such \<open>b\<close>.
\<close>

fun find_sub :: "string \<Rightarrow> string \<Rightarrow> string option" where
  "find_sub b [] = (if b = [] then Some [] else None)"
| "find_sub b (c # cs) =
     (if prefix b (c # cs) then Some [] else map_option (Cons c) (find_sub b cs))"

fun search_tags :: "string \<Rightarrow> string \<Rightarrow> string \<Rightarrow> string option" where
  "search_tags a b [] = (if a = [] then find_sub b [] else None)"
| "search_tags a b (c # cs) =
     (case search_tags a b cs of
        Some g \<Rightarrow> Some g
      | None \<Rightarrow> if prefix a (c # cs) then find_sub b (drop (length a) (c # cs)) else None)"

text \<open>The branch of \<^verbatim>\<open>_handle_response\<close> for \<^verbatim>\<open>end_turn\<close> and \<^verbatim>\<open>stop_sequence\<close>.\<close>

definition final_text :: "string list \<Rightarrow> content_block list \<Rightarrow> exn + string option" where
  "final_text tags items =
     (let text' = first_text_block items in
      if length tags = 2 then
        (case text' of
           None \<Rightarrow> Inl (TypeError ''expected string or bytes-like object, got NoneType'')
         | Some t \<Rightarrow>
             (case search_tags (tags ! 0) (tags ! 1) t of
                Some g \<Rightarrow> Inr (Some g)
              | None \<Rightarrow> Inr text'))
      else Inr text')"

text \<open>
  The loop over the content blocks in the branch for \<^verbatim>\<open>tool_use\<close>, with the inner
  \<^verbatim>\<open>try\<close>: a \<^verbatim>\<open>ValueError\<close> whose message starts with \<^verbatim>\<open>Unknown tool: \<close> becomes an item of
  \<^verbatim>\<open>tool_response\<close>, anything else is raised.
\<close>

fun run_tools ::
  "('r, 't) execute_tool \<Rightarrow> content_block list \<Rightarrow> 'r user_item list \<Rightarrow> 't
     \<Rightarrow> (exn + 'r user_item list) \<times> 't" where
  "run_tools execute_tool [] tool_response t = (Inr tool_response, t)"
| "run_tools execute_tool (ToolUse u # items) tool_response t =
     (case execute_tool u t of
        (Inr tool_result, t') \<Rightarrow>
          run_tools execute_tool items (tool_response @ [ToolResult tool_result]) t'
      | (Inl (ValueError m), t') \<Rightarrow>
          if prefix ''Unknown tool: '' m
          then run_tools execute_tool items (tool_response @ [ErrorItem (ValueError m)]) t'
          else (Inl (ValueError m), t')
      | (Inl e, t') \<Rightarrow> (Inl e, t'))"
| "run_tools execute_tool (_ # items) tool_response t =
     run_tools execute_tool items tool_response t"

text \<open>The outer handlers of that branch: \<^verbatim>\<open>except KeyError\<close>, then \<^verbatim>\<open>except Exception\<close>.\<close>

fun reraise :: "exn \<Rightarrow> exn" where
  "reraise (KeyError m) = ValueError (''Missing required tool use field: '' @ m)"
| "reraise e = ValueError (''Failed to execute tool: '' @ str_exn e)"

text \<open>
  \<^verbatim>\<open>ConverseAgent.invoke\<close> and \<^verbatim>\<open>ConverseAgent._handle_response\<close>. The result is \<open>None\<close> when
  the outcomes of the provider are used up before the call returns or raises.
\<close>

function (sequential)
  invoke :: "('r, 't) execute_tool \<Rightarrow> 'r user_item list \<Rightarrow> ('r, 't) converse_agent
     \<Rightarrow> ((exn + string option) \<times> ('r, 't) converse_agent) option"
and handle_response :: "('r, 't) execute_tool \<Rightarrow> response \<Rightarrow> ('r, 't) converse_agent
     \<Rightarrow> ((exn + string option) \<times> ('r, 't) converse_agent) option"
where
  "invoke execute_tool content' self =
     (if \<not> list_all json_serializable content'
      then Some (Inl (TypeError ''Object of type ValueError is not JSON serializable''), self)
      else
        (let self1 = self\<lparr>messages := messages self @ [User content']\<rparr> in
         case converse_loop (client self1) (slept self1) of
           (None, rest, t) \<Rightarrow> None
         | (Some (Inl e), rest, t) \<Rightarrow> Some (Inl e, self1\<lparr>client := rest, slept := t\<rparr>)
         | (Some (Inr response), rest, t) \<Rightarrow>
             handle_response execute_tool response (self1\<lparr>client := rest, slept := t\<rparr>)))"
| "handle_response execute_tool response self =
     (let self1 = self\<lparr>messages := messages self @ [Assistant (output_message_content response)]\<rparr>;
          stop_reason = stopReason response
      in if stop_reason = ''end_turn'' \<or> stop_reason = ''stop_sequence'' then
           Some (final_text (response_output_tags self1) (output_message_content response), self1)
         else if stop_reason = ''tool_use'' then
           (case run_tools execute_tool (output_message_content response) [] (tools self1) of
              (Inl e, t') \<Rightarrow> Some (Inl (reraise e), self1\<lparr>tools := t'\<rparr>)
            | (Inr tool_response, t') \<Rightarrow>
                (case invoke execute_tool tool_response (self1\<lparr>tools := t'\<rparr>) of
                   None \<Rightarrow> None
                 | Some (Inl e, self2) \<Rightarrow> Some (Inl (reraise e), self2)
                 | Some (Inr text', self2) \<Rightarrow> Some (Inr text', self2)))
         else if stop_reason = ''max_tokens'' then
           (case invoke execute_tool [UserText ''Please continue.'']
                   (self1\<lparr>slept := slept self1 + 10\<rparr>) of
              None \<Rightarrow> None
            | Some (Inl e, self2) \<Rightarrow> Some (Inl e, self2)
            | Some (Inr _, self2) \<Rightarrow> Some (Inr None, self2))
         else Some (Inl (ValueError (''Unknown stop reason: '' @ stop_reason)), self1))"
  by pat_completeness auto
termination
proof (relation "measure (\<lambda>x. case x of
          Inl (_, _, self) \<Rightarrow> 2 * length (client self) + 1
        | Inr (_, _, self) \<Rightarrow> 2 * length (client self) + 2)")
qed (auto dest!: converse_loop_shorter[OF sym])

declare invoke.simps [simp del] handle_response.simps [simp del]

definition invoke_with_prompt ::
  "('r, 't) execute_tool \<Rightarrow> string \<Rightarrow> ('r, 't) converse_agent
     \<Rightarrow> ((exn + string option) \<times> ('r, 't) converse_agent) option" where
  "invoke_with_prompt execute_tool prompt self = invoke execute_tool [UserText prompt] self"

text \<open>The faults the loop of \<^verbatim>\<open>invoke\<close> catches and retries.\<close>

fun transient :: "outcome \<Rightarrow> bool" where
  "transient (Raises (ThrottlingException m)) = True"
| "transient (Raises (ModelTimeoutException m)) = True"
| "transient _ = False"

section \<open>The substitution pass as the specification words it\<close>

text \<open>
  "Resolve-one-pass, no recursive re-expansion": one pass over the template from left to
  right; a reference \<^verbatim>\<open>${name}\<close> is replaced by the value of the name where it has one, and the
  text put in is not read again. \<open>resolve_one_pass\<close> follows these words, for comparison with
  \<open>replace_context_variables\<close>.
\<close>

function resolve_one_pass :: "(string \<rightharpoonup> string) \<Rightarrow> string \<Rightarrow> string" where
  "resolve_one_pass val [] = []"
| "resolve_one_pass val (c # cs) =
     (if c = CHR ''$'' \<and> prefix ''{'' cs then
        (let body = tl cs;
             name = takeWhile (\<lambda>x. x \<noteq> CHR ''}'') body;
             rest = dropWhile (\<lambda>x. x \<noteq> CHR ''}'') body
         in if name \<noteq> [] \<and> rest \<noteq> []
            then (case val name of Some t \<Rightarrow> t | None \<Rightarrow> placeholder name)
                 @ resolve_one_pass val (tl rest)
            else c # resolve_one_pass val cs)
      else c # resolve_one_pass val cs)"
  by pat_completeness auto
termination
proof (relation "measure (\<lambda>(val, s). length s)")
  fix val :: "string \<rightharpoonup> string" and c :: char and cs body name rest :: string
  assume "c = CHR ''$'' \<and> prefix ''{'' cs" and b: "body = tl cs"
    and "name = takeWhile (\<lambda>x. x \<noteq> CHR ''}'') body"
    and r: "rest = dropWhile (\<lambda>x. x \<noteq> CHR ''}'') body"
    and "name \<noteq> [] \<and> rest \<noteq> []"
  then have "length (tl rest) < length rest" by (cases rest) auto
  moreover have "length rest \<le> length body" unfolding r by (rule length_dropWhile_le)
  moreover have "length body \<le> length cs" unfolding b by simp
  ultimately show "((val, tl rest), (val, c # cs)) \<in> measure (\<lambda>(val, s). length s)" by simp
qed auto

section \<open>An instance of the library, for evaluating examples\<close>

text \<open>
  A printer in the format of \<^verbatim>\<open>json.dumps\<close> (separators \<^verbatim>\<open>", "\<close> and \<^verbatim>\<open>": "\<close>) and a reader of
  that format: \<^verbatim>\<open>null\<close>, \<^verbatim>\<open>true\<close>, \<^verbatim>\<open>false\<close>, integers, strings with the escapes of the quote,
  the backslash and the newline, lists and objects. The reader recurses on a bound that the
  length of the text gives.
\<close>

definition digit :: "nat \<Rightarrow> char" where
  "digit d = char_of (48 + d)"

fun decimal :: "nat \<Rightarrow> nat \<Rightarrow> string" where
  "decimal 0 n = []"
| "decimal (Suc bound) n =
     (if n < 10 then [digit n] else decimal bound (n div 10) @ [digit (n mod 10)])"

definition show_int :: "int \<Rightarrow> string" where
  "show_int i = (if i < 0 then CHR ''-'' # decimal (Suc (nat (- i))) (nat (- i))
                 else decimal (Suc (nat i)) (nat i))"

fun escape :: "string \<Rightarrow> string" where
  "escape [] = []"
| "escape (c # cs) =
     (if c = CHR 0x22 then CHR 0x5C # CHR 0x22 # escape cs
      else if c = CHR 0x5C then CHR 0x5C # CHR 0x5C # escape cs
      else if c = CHR 0x0A then CHR 0x5C # CHR ''n'' # escape cs
      else c # escape cs)"

definition quoted :: "string \<Rightarrow> string" where
  "quoted s = CHR 0x22 # escape s @ [CHR 0x22]"

fun separated :: "string list \<Rightarrow> string" where
  "separated [] = []"
| "separated [x] = x"
| "separated (x # y # ys) = x @ '', '' @ separated (y # ys)"

fun dumps :: "json \<Rightarrow> string" where
  "dumps JNull = ''null''"
| "dumps (JBool b) = (if b then ''true'' else ''false'')"
| "dumps (JInt i) = show_int i"
| "dumps (JStr s) = quoted s"
| "dumps (JList xs) = ''['' @ separated (map dumps xs) @ '']''"
| "dumps (JObj kvs) = ''{'' @ separated (map (\<lambda>(k, v). quoted k @ '': '' @ dumps v) kvs) @ ''}''"

definition skip_ws :: "string \<Rightarrow> string" where
  "skip_ws = dropWhile (\<lambda>c. c = CHR '' '' \<or> c = CHR 0x0A \<or> c = CHR 0x09 \<or> c = CHR 0x0D)"

fun read_string :: "string \<Rightarrow> (string \<times> string) option" where
  "read_string [] = None"
| "read_string [c] = (if c = CHR 0x22 then Some ([], []) else None)"
| "read_string (c # d # cs) =
     (if c = CHR 0x22 then Some ([], d # cs)
      else if c = CHR 0x5C then
        (if d = CHR 0x22 \<or> d = CHR 0x5C \<or> d = CHR ''/''
         then map_option (\<lambda>(s, r). (d # s, r)) (read_string cs)
         else if d = CHR ''n'' then map_option (\<lambda>(s, r). (CHR 0x0A # s, r)) (read_string cs)
         else None)
      else map_option (\<lambda>(s, r). (c # s, r)) (read_string (d # cs)))"

definition is_digit :: "char \<Rightarrow> bool" where
  "is_digit c = (48 \<le> (of_char c :: nat) \<and> (of_char c :: nat) \<le> 57)"

definition read_nat :: "string \<Rightarrow> nat" where
  "read_nat ds = foldl (\<lambda>n c. 10 * n + ((of_char c :: nat) - 48)) 0 ds"

fun read_value :: "nat \<Rightarrow> string \<Rightarrow> (json \<times> string) option"
and read_elements :: "nat \<Rightarrow> string \<Rightarrow> (json list \<times> string) option"
and read_members :: "nat \<Rightarrow> string \<Rightarrow> ((string \<times> json) list \<times> string) option" where
  "read_value 0 s = None"
| "read_value (Suc bound) s =
     (let t = skip_ws s in
      if prefix ''null'' t then Some (JNull, drop 4 t)
      else if prefix ''true'' t then Some (JBool True, drop 4 t)
      else if prefix ''false'' t then Some (JBool False, drop 5 t)
      else if prefix [CHR 0x22] t then map_option (\<lambda>(x, r). (JStr x, r)) (read_string (tl t))
      else if prefix ''['' t then
        (if prefix '']'' (skip_ws (tl t)) then Some (JList [], tl (skip_ws (tl t)))
         else map_option (\<lambda>(xs, r). (JList xs, r)) (read_elements bound (tl t)))
      else if prefix ''{'' t then
        (if prefix ''}'' (skip_ws (tl t)) then Some (JObj [], tl (skip_ws (tl t)))
         else map_option (\<lambda>(kvs, r). (JObj kvs, r)) (read_members bound (tl t)))
      else if prefix ''-'' t \<and> takeWhile is_digit (tl t) \<noteq> [] then
        Some (JInt (- int (read_nat (takeWhile is_digit (tl t)))), dropWhile is_digit (tl t))
      else if takeWhile is_digit t \<noteq> [] then
        Some (JInt (int (read_nat (takeWhile is_digit t))), dropWhile is_digit t)
      else None)"
| "read_elements 0 s = None"
| "read_elements (Suc bound) s =
     (case read_value bound s of
        None \<Rightarrow> None
      | Some (v, r) \<Rightarrow>
          (let t = skip_ws r in
           if prefix '','' t then map_option (\<lambda>(xs, r'). (v # xs, r')) (read_elements bound (tl t))
           else if prefix '']'' t then Some ([v], tl t)
           else None))"
| "read_members 0 s = None"
| "read_members (Suc bound) s =
     (let t = skip_ws s in
      if prefix [CHR 0x22] t then
        (case read_string (tl t) of
           None \<Rightarrow> None
         | Some (k, r) \<Rightarrow>
             (if prefix '':'' (skip_ws r) then
                (case read_value bound (tl (skip_ws r)) of
                   None \<Rightarrow> None
                 | Some (v, r') \<Rightarrow>
                     (let u = skip_ws r' in
                      if prefix '','' u
                      then map_option
                             (\<lambda>(kvs, r''). ((k, case map_of kvs k of Some v' \<Rightarrow> v' | None \<Rightarrow> v)
                                              # AList.delete k kvs, r''))
                             (read_members bound (tl u))
                      else if prefix ''}'' u then Some ([(k, v)], tl u)
                      else None))
              else None))
      else None)"

definition loads :: "string \<Rightarrow> json option" where
  "loads s =
     (case read_value (Suc (length s)) s of
        None \<Rightarrow> None
      | Some (v, r) \<Rightarrow> if skip_ws r = [] then Some v else None)"

text \<open>
  The paths of the example: the parent of the backing directory and \<^verbatim>\<open>/tmp\<close> are directories
  in which files can be made, and no other path with a separator leads anywhere.
\<close>

definition file_name :: "string \<Rightarrow> bool" where
  "file_name n = (n \<noteq> [] \<and> n \<noteq> ''.'' \<and> n \<noteq> ''..'' \<and> CHR ''/'' \<notin> set n \<and> CHR 0x00 \<notin> set n
                  \<and> length n \<le> 255)"

definition example_os_path :: "string \<Rightarrow> reach" where
  "example_os_path entry_key =
     (if entry_key \<in> {''../'', ''/tmp'', ''/tmp/''} then ReachesDirectory
      else if prefix ''../'' entry_key \<and> file_name (drop 3 entry_key) then Reaches
      else if prefix ''/tmp/'' entry_key \<and> file_name (drop 5 entry_key) then Reaches
      else Unreachable)"

definition example_library :: library where
  "example_library =
     \<lparr>json_dumps = dumps, json_loads = loads, to_json = dumps, os_path = example_os_path\<rparr>"

section \<open>Inputs of the examples\<close>

text \<open>
  States of the memory server, steps, agents and completions that the examples below
  evaluate the engine on.
\<close>

definition example_world :: "memory_server world" where
  "example_world =
     \<lparr>store = \<lparr>memory = [(''name'', JStr ''Ada''), (''empty'', JList [])], memory_dir = Some []\<rparr>,
      tool_calls = [], logs = [], agent_calls = []\<rparr>"

definition empty_server :: memory_server where
  "empty_server = \<lparr>memory = [], memory_dir = Some []\<rparr>"

definition done_world :: "memory_server world" where
  "done_world =
     \<lparr>store = \<lparr>memory = [(''s1_status'', JStr ''done'')], memory_dir = Some [(''s1_status'', ''\"done\"'')]\<rparr>,
      tool_calls = [], logs = [], agent_calls = []\<rparr>"

definition step_one :: step where
  "step_one = \<lparr>step_id = ''s1'', skippable = True\<rparr>"

definition working :: "(memory_server, string) actual_execute" where
  "working summary prefix' func profiles ov parent_id w =
     (case call func (add_or_update_memory_entry_call ''s1_response'' (JStr ''again'')) w of
        (_, w') \<Rightarrow> (Inr (), w'\<lparr>agent_calls := agent_calls w' @ [(''p0'', ''work'')]\<rparr>))"

definition loop_step :: "memory_server foreach" where
  "loop_step = \<lparr>step_id = ''loop'', skippable = True, variable_name = ''item'',
           expression = Some ''the files'', is_parallel = False,
           expression_list_func = None, expression_list_func_with_params = None\<rparr>"

definition fresh_world :: "memory_server world" where
  "fresh_world = \<lparr>store = empty_server, tool_calls = [], logs = [], agent_calls = []\<rparr>"

definition storing_agent :: "memory_server agents" where
  "storing_agent profile_name s =
     (Inr (\<lambda>prompt s'.
             (Inr (Some ''stored''),
              snd (add_or_update_memory_entry example_library ''loop_expression_list''
                     (JList [JStr ''a'', JStr ''b'']) s'))), s)"

definition idle_agent :: "memory_server agents" where
  "idle_agent profile_name s = (Inr (\<lambda>prompt s'. (Inr (Some ''nothing to do''), s')), s)"

definition empty_list_agent :: "memory_server agents" where
  "empty_list_agent profile_name s =
     (Inr (\<lambda>prompt s'.
             (Inr (Some ''stored''),
              snd (add_or_update_memory_entry example_library ''loop_expression_list''
                     (JList []) s'))), s)"

definition held_empty_world :: "memory_server world" where
  "held_empty_world =
     \<lparr>store = \<lparr>memory = [(''loop_expression_list'', JList [])],
               memory_dir = Some [(''loop_expression_list'', ''[]'')]\<rparr>,
      tool_calls = [], logs = [], agent_calls = []\<rparr>"

definition files_world :: "memory_server world" where
  "files_world =
     \<lparr>store = \<lparr>memory = [(''files'', JList [JStr ''a.json'', JStr ''b.json''])],
               memory_dir = Some [(''files'', ''[\"a.json\", \"b.json\"]'')]\<rparr>,
      tool_calls = [], logs = [], agent_calls = []\<rparr>"

definition agent0 :: "(json, unit) converse_agent" where
  "agent0 = \<lparr>messages = [], response_output_tags = [], client = [], tools = (), slept = 0\<rparr>"

definition no_tools :: "(json, unit) execute_tool" where
  "no_tools tool_request t = (Inl (ValueError (''Unknown tool: '' @ tool_name tool_request)), t)"

definition final_answer :: response where
  "final_answer = \<lparr>output_message_content = [Text ''final''], stopReason = ''end_turn''\<rparr>"

definition cut_off :: response where
  "cut_off = \<lparr>output_message_content = [Text ''part''], stopReason = ''max_tokens''\<rparr>"

definition wants_tool :: response where
  "wants_tool = \<lparr>output_message_content =
       [ToolUse \<lparr>toolUseId = ''t1'', tool_name = ''nope'', tool_input = JNull\<rparr>],
     stopReason = ''tool_use''\<rparr>"

section \<open>Properties of the interpolation\<close>

lemma find_variables_skip:
  "CHR ''$'' \<notin> set pre \<Longrightarrow> find_variables (pre @ s) = find_variables s"
  by (induction pre) auto

lemma find_variables_no_dollar:
  "CHR ''$'' \<notin> set s \<Longrightarrow> find_variables s = []"
  using find_variables_skip[of s "[]"] by simp

lemma find_variables_placeholder:
  assumes "a \<noteq> []" and "CHR ''}'' \<notin> set a"
  shows "find_variables (placeholder a @ post) = a # find_variables post"
proof -
  have t: "takeWhile (\<lambda>x. x \<noteq> CHR ''}'') (a @ CHR ''}'' # post) = a"
    using assms(2) by (induction a) auto
  have d: "dropWhile (\<lambda>x. x \<noteq> CHR ''}'') (a @ CHR ''}'' # post) = CHR ''}'' # post"
    using assms(2) by (induction a) auto
  show ?thesis
    using assms(1) by (simp add: placeholder_def t d)
qed

lemma str_replace_skip:
  "CHR ''$'' \<notin> set pre \<Longrightarrow>
   str_replace (placeholder a) new (pre @ s) = pre @ str_replace (placeholder a) new s"
  by (induction pre) (auto simp: placeholder_def)

lemma str_replace_no_dollar:
  "CHR ''$'' \<notin> set s \<Longrightarrow> str_replace (placeholder a) new s = s"
  using str_replace_skip[of s a new "[]"] by (simp add: placeholder_def)

lemma str_replace_placeholder:
  "str_replace (placeholder a) new (placeholder a @ post) = new @ str_replace (placeholder a) new post"
  by (simp add: placeholder_def)

lemma str_replace_single:
  "CHR ''$'' \<notin> set pre \<Longrightarrow> CHR ''$'' \<notin> set post \<Longrightarrow>
   str_replace (placeholder a) new (pre @ placeholder a @ post) = pre @ new @ post"
  by (simp add: str_replace_skip str_replace_placeholder str_replace_no_dollar)

lemma find_variables_single:
  "a \<noteq> [] \<Longrightarrow> CHR ''}'' \<notin> set a \<Longrightarrow> CHR ''$'' \<notin> set pre \<Longrightarrow> CHR ''$'' \<notin> set post \<Longrightarrow>
   find_variables (pre @ placeholder a @ post) = [a]"
  by (simp add: find_variables_skip find_variables_placeholder find_variables_no_dollar)

lemma tool_calls_replace_each:
  "tool_calls (snd (replace_each func str ov vars prompt w)) =
     tool_calls w @ map read_memory_entry_call (filter (\<lambda>v. ov v = None) vars)"
  by (induction vars arbitrary: prompt w)
     (auto simp: call_def logger_def split: option.splits prod.splits sum.splits)

text \<open>
  C9, as stated, fails: with \<^verbatim>\<open>a\<close> bound to \<^verbatim>\<open>${b}\<close> and \<^verbatim>\<open>b\<close> to \<^verbatim>\<open>X\<close>, the text that the
  substitution of \<^verbatim>\<open>${a}\<close> puts into \<^verbatim>\<open>${a} ${b}\<close> is substituted again when \<^verbatim>\<open>b\<close> has its
  turn. The result is \<^verbatim>\<open>X X\<close>, where one pass without re-expansion gives \<^verbatim>\<open>${b} X\<close>.
\<close>

theorem interpolation_resubstitutes:
  "fst (replace_context_variables ''${a} ${b}'' (memory_func example_library) (\<lambda>x. x)
          [''a'' \<mapsto> ''${b}'', ''b'' \<mapsto> ''X''] example_world) = ''X X''
   \<and> resolve_one_pass [''a'' \<mapsto> ''${b}'', ''b'' \<mapsto> ''X''] ''${a} ${b}'' = ''${b} X''
   \<and> fst (replace_context_variables ''${a} ${b}'' (memory_func example_library) (\<lambda>x. x)
          [''a'' \<mapsto> ''${b}'', ''b'' \<mapsto> ''X''] example_world)
       \<noteq> resolve_one_pass [''a'' \<mapsto> ''${b}'', ''b'' \<mapsto> ''X''] ''${a} ${b}''"
  by (simp add: replace_context_variables_def placeholder_def)

lemma replace_each_cong:
  "(\<And>v. v \<in> set vars \<Longrightarrow> ov v = ov' v) \<Longrightarrow>
   (\<And>v s. v \<in> set vars \<Longrightarrow> func s (read_memory_entry_call v) = func' s (read_memory_entry_call v)) \<Longrightarrow>
   replace_each func str ov vars prompt w = replace_each func' str ov' vars prompt w"
proof (induction vars arbitrary: prompt w)
  case Nil
  then show ?case by simp
next
  case (Cons var vars)
  have 1: "ov var = ov' var" using Cons.prems(1) by simp
  have 2: "call func (read_memory_entry_call var) w = call func' (read_memory_entry_call var) w"
    using Cons.prems(2)[of var] by (simp add: call_def)
  have IH: "\<And>prompt w. replace_each func str ov vars prompt w = replace_each func' str ov' vars prompt w"
    using Cons.IH Cons.prems by simp
  show ?case by (simp add: 1 2 IH split: option.splits prod.splits sum.splits)
qed

text \<open>
  C9, amended. The names are collected once, from the prompt as it is given: the result of
  an interpolation depends on the bindings of those names only, in the override map and in
  the store. A reference \<^verbatim>\<open>${c}\<close> that a substituted value brings in is never resolved when
  \<open>c\<close> is not a variable of the given prompt.
\<close>

theorem interpolation_names_fixed:
  "(\<forall>v \<in> set (find_variables prompt). ov v = ov' v \<and>
       (\<forall>s. func s (read_memory_entry_call v) = func' s (read_memory_entry_call v))) \<longrightarrow>
   replace_context_variables prompt func str ov w = replace_context_variables prompt func' str ov' w"
  unfolding replace_context_variables_def
  by (auto intro!: replace_each_cong)

text \<open>
  C9, amended, at a concrete input: the value of \<^verbatim>\<open>a\<close> brings in \<^verbatim>\<open>${c}\<close>, and a binding of
  \<^verbatim>\<open>c\<close> changes nothing.
\<close>

theorem interpolation_names_fixed_witness:
  "replace_context_variables ''${a}'' (memory_func example_library) (\<lambda>x. x)
       [''a'' \<mapsto> ''${c}'', ''c'' \<mapsto> ''X''] example_world
     = replace_context_variables ''${a}'' (memory_func example_library) (\<lambda>x. x)
       [''a'' \<mapsto> ''${c}''] example_world
   \<and> fst (replace_context_variables ''${a}'' (memory_func example_library) (\<lambda>x. x)
       [''a'' \<mapsto> ''${c}'', ''c'' \<mapsto> ''X''] example_world) = ''${c}''"
  using interpolation_names_fixed[where prompt = "''${a}''" and func = "memory_func example_library"
      and func' = "memory_func example_library" and ov = "[''a'' \<mapsto> ''${c}'', ''c'' \<mapsto> ''X'']"
      and ov' = "[''a'' \<mapsto> ''${c}'']" and str = "\<lambda>x. x" and w = example_world]
  by (simp add: replace_context_variables_def placeholder_def)

section \<open>Properties of the memory server\<close>

lemma map_of_AList_update: "map_of (AList.update k v al) k' = (if k' = k then Some v else map_of al k')"
  by (simp add: update_conv')






lemma map_of_Some_in_fst: "map_of files k = Some d \<Longrightarrow> k \<in> set (map fst files)"
  by (metis map_of_eq_None_iff option.distinct(1) set_map)

lemma read_memory_entry_again:
  "read_memory_entry lib k s = (r, s') \<Longrightarrow> read_memory_entry lib k s' = (r, s')"
  by (auto simp: read_memory_entry_def map_of_AList_update split: option.splits if_splits sum.splits)

lemma read_memory_entry_frame:
  "read_memory_entry lib k s = (r, s') \<Longrightarrow>
   memory_dir s' = memory_dir s \<and> fst (read_memory_entry lib k' s') = fst (read_memory_entry lib k' s)"
  by (auto simp: read_memory_entry_def map_of_AList_update split: option.splits if_splits sum.splits)

lemma read_after_write:
  "fst (read_memory_entry lib k (snd (add_or_update_memory_entry lib k v s))) = Inr v"
  by (auto simp: add_or_update_memory_entry_def read_memory_entry_def Let_def map_of_AList_update
      split: sum.splits)

lemma entry_found_no_entry [simp]:
  "\<not> entry_found \<lparr>content = [TextContent (Some no_entry)], isError = False\<rparr>"
  by (simp add: entry_found_def)

lemma memory_func_read_again:
  "memory_func lib s (read_memory_entry_call k) = (r, s') \<Longrightarrow>
   memory_func lib s' (read_memory_entry_call k) = (r, s')"
proof -
  assume a: "memory_func lib s (read_memory_entry_call k) = (r, s')"
  obtain x t where x: "read_memory_entry lib k s = (x, t)" by (cases "read_memory_entry lib k s")
  from a x have "t = s'" by (auto simp: served_def split: sum.splits)
  with x read_memory_entry_again[OF x] a show ?thesis
    by (auto simp: served_def split: sum.splits)
qed

lemma memory_func_Inr: "\<exists>v s'. memory_func lib s c = (Inr v, s')"
  by (cases c) (auto simp: served_def split: prod.splits sum.splits)

lemma call_memory_func:
  "\<exists>v s'. call (memory_func lib) c w = (Inr v, w\<lparr>store := s', tool_calls := tool_calls w @ [c]\<rparr>)
           \<and> memory_func lib (store w) c = (Inr v, s')"
  using memory_func_Inr[of lib "store w" c] by (auto simp: call_def)

lemma memory_func_read_frame:
  assumes "memory_func lib s (read_memory_entry_call k) = (r, s')"
  shows "fst (memory_func lib s' (read_memory_entry_call k')) = fst (memory_func lib s (read_memory_entry_call k'))"
proof -
  obtain x t where x: "read_memory_entry lib k s = (x, t)" by (cases "read_memory_entry lib k s")
  with assms have t: "t = s'" by (auto simp: served_def split: sum.splits)
  from read_memory_entry_frame[OF x, of k'] t
  have "fst (read_memory_entry lib k' s') = fst (read_memory_entry lib k' s)" by simp
  then show ?thesis
    by (cases "read_memory_entry lib k' s'"; cases "read_memory_entry lib k' s")
       (auto simp: served_def split: sum.splits)
qed

lemma logs_replace_each:
  "logs (snd (replace_each (memory_func lib) str ov vars prompt w)) =
     logs w @ map (\<lambda>v. case fst (memory_func lib (store w) (read_memory_entry_call v)) of
                       Inl e \<Rightarrow> (ERROR, ''Error replacing variable '' @ v @ '': '' @ str_exn e)
                     | Inr r \<Rightarrow>
                         if entry_found r
                         then (INFO, ''Replacing variable '' @ v @ '' with value: '' @ first_text r)
                         else (WARNING, ''No value found in memory for variable: '' @ v))
                (filter (\<lambda>v. ov v = None) vars)"
proof (induction vars arbitrary: prompt w)
  case Nil
  then show ?case by simp
next
  case (Cons var vars)
  show ?case
  proof (cases "ov var")
    case (Some x)
    then show ?thesis using Cons.IH by simp
  next
    case None
    obtain r s' where m: "memory_func lib (store w) (read_memory_entry_call var) = (Inr r, s')"
      using memory_func_Inr[of lib "store w" "read_memory_entry_call var"] by blast
    have fr: "\<And>k. fst (memory_func lib s' (read_memory_entry_call k))
                  = fst (memory_func lib (store w) (read_memory_entry_call k))"
      using memory_func_read_frame[OF m] .
    show ?thesis
      using None m by (simp add: call_def logger_def Cons.IH fr del: memory_func.simps)
  qed
qed

lemma replace_each_reads_agree:
  "(\<And>k. fst (memory_func lib (store w) (read_memory_entry_call k))
         = fst (memory_func lib (store w') (read_memory_entry_call k))) \<Longrightarrow>
   fst (replace_each (memory_func lib) str ov vars prompt w)
     = fst (replace_each (memory_func lib) str ov vars prompt w')"
proof (induction vars arbitrary: prompt w w')
  case Nil
  then show ?case by simp
next
  case (Cons var vars)
  show ?case
  proof (cases "ov var")
    case (Some x)
    then show ?thesis using Cons.IH[OF Cons.prems] by simp
  next
    case None
    obtain r s2 where m: "memory_func lib (store w) (read_memory_entry_call var) = (Inr r, s2)"
      using memory_func_Inr[of lib "store w" "read_memory_entry_call var"] by blast
    obtain r' s2' where m': "memory_func lib (store w') (read_memory_entry_call var) = (Inr r', s2')"
      using memory_func_Inr[of lib "store w'" "read_memory_entry_call var"] by blast
    have rr: "r' = r" using Cons.prems[of var] m m' by simp
    have ag: "\<And>k. fst (memory_func lib s2 (read_memory_entry_call k))
                  = fst (memory_func lib s2' (read_memory_entry_call k))"
      using memory_func_read_frame[OF m] memory_func_read_frame[OF m'] Cons.prems by simp
    show ?thesis
      using None m m' rr
      by (auto simp: call_def logger_def simp del: memory_func.simps intro!: Cons.IH ag)
  qed
qed

lemma place_of_AFile: "place_of lib k = AFile n \<Longrightarrow> n = k"
  by (auto simp: place_of_def split: if_splits reach.splits)

lemma write_then_reads:
  assumes "map_of (memory s) k = None" "\<not> path_exists lib k (memory_dir s)"
  shows "fst (memory_func lib (snd (add_or_update_memory_entry lib k (JStr no_entry) s))
               (read_memory_entry_call k'))
         = fst (memory_func lib s (read_memory_entry_call k'))"
proof (cases "k' = k")
  case True
  then show ?thesis
    using assms
    by (auto simp: served_def read_memory_entry_def add_or_update_memory_entry_def Let_def
          map_of_AList_update split: sum.splits)
next
  case False
  have "fst (read_memory_entry lib k' (snd (add_or_update_memory_entry lib k (JStr no_entry) s)))
      = fst (read_memory_entry lib k' s)"
    using False
    by (auto simp: read_memory_entry_def add_or_update_memory_entry_def Let_def
          map_of_AList_update write_file_def path_exists_def read_file_def
        split: sum.splits option.splits place.splits dest!: place_of_AFile)
  then show ?thesis
    by (cases "read_memory_entry lib k' s";
        cases "read_memory_entry lib k' (snd (add_or_update_memory_entry lib k (JStr no_entry) s))")
       (auto simp: served_def split: sum.splits)
qed

lemma convert_to_content_strings:
  "convert_to_content lib (JList (map JStr xs)) = map (\<lambda>t. TextContent (Some t)) xs"
  by (induction xs) auto

lemma interpolation_after_sentinel:
  assumes "map_of (memory s) k = None" "\<not> path_exists lib k (memory_dir s)"
  shows "fst (replace_context_variables prompt (memory_func lib) str ov
                (w\<lparr>store := snd (add_or_update_memory_entry lib k (JStr no_entry) s)\<rparr>))
         = fst (replace_context_variables prompt (memory_func lib) str ov (w\<lparr>store := s\<rparr>))"
  unfolding replace_context_variables_def
  by (rule replace_each_reads_agree) (simp add: write_then_reads[OF assms] del: memory_func.simps)

lemma stored_list_found:
  assumes "fst (read_memory_entry lib key s) = Inr (JList (map JStr (x # xs)))" "x \<noteq> no_entry"
  shows "\<exists>v s'. memory_func lib s (read_memory_entry_call key) = (Inr v, s')
           \<and> entry_found v \<and> texts v = map JStr (x # xs)"
proof -
  obtain s' where "read_memory_entry lib key s = (Inr (JList (map JStr (x # xs))), s')"
    using assms(1) by (cases "read_memory_entry lib key s") auto
  then show ?thesis
    using assms(2)
    by (simp add: served_def entry_found_def texts_def comp_def
          convert_to_content_strings[of lib "x # xs", simplified])
qed

lemma never_written_not_found:
  assumes "map_of (memory s) key = None" "\<not> path_exists lib key (memory_dir s)"
  shows "memory_func lib s (read_memory_entry_call key)
           = (Inr \<lparr>content = [TextContent (Some no_entry)], isError = False\<rparr>, s)"
  using assms by (simp add: read_memory_entry_def served_def)



subsection \<open>Interpolation over the memory server\<close>

lemma replace_each_append:
  "replace_each func str ov (vs1 @ vs2) prompt w =
     (case replace_each func str ov vs1 prompt w of
        (p1, w1) \<Rightarrow> replace_each func str ov vs2 p1 w1)"
  by (induction vs1 arbitrary: prompt w) (auto split: option.splits prod.splits sum.splits)

lemma read_result_content:
  "fst (read_memory_entry lib a s) = Inr val \<Longrightarrow>
   fst (memory_func lib s (read_memory_entry_call a))
     = Inr \<lparr>content = convert_to_content lib val, isError = False\<rparr>"
  by (cases "read_memory_entry lib a s") (auto simp: served_def)

lemma read_result_error:
  "fst (read_memory_entry lib a s) = Inl e \<Longrightarrow>
   fst (memory_func lib s (read_memory_entry_call a))
     = Inr \<lparr>content = [TextContent (Some (''Error executing tool read_memory_entry: '' @ str_exn e))],
            isError = True\<rparr>"
  by (cases "read_memory_entry lib a s") (auto simp: served_def)

lemma never_written_reads_sentinel:
  "map_of (memory s) a = None \<Longrightarrow> \<not> path_exists lib a (memory_dir s) \<Longrightarrow>
   fst (read_memory_entry lib a s) = Inr (JStr no_entry)"
  by (simp add: read_memory_entry_def)

text \<open>
  C3, as stated, fails. A key that holds the empty list is present in the store, yet
  \<^verbatim>\<open>Hello ${empty}!\<close> comes back as it is, with the warning of a missing value. Of a stored
  list only the first element is put in. The literal of a name that neither the map nor the
  store has is not always left as it is: the scan of \<^verbatim>\<open>${p${q} ${q}\<close> finds the names \<^verbatim>\<open>p${q\<close>
  and \<^verbatim>\<open>q\<close>, and the turn of \<^verbatim>\<open>q\<close> changes the literal of the first. A template can hold the
  text \<^verbatim>\<open>${a}\<close> without \<^verbatim>\<open>a\<close> being one of its names: in \<^verbatim>\<open>${x${a}\<close> the override value of \<^verbatim>\<open>a\<close>
  is not put in.
\<close>

theorem interpolation_present_not_substituted:
  "map_of (memory (store example_world)) ''empty'' = Some (JList [])
   \<and> replace_context_variables ''Hello ${empty}!'' (memory_func example_library) (\<lambda>x. x)
        Map.empty example_world
      = (''Hello ${empty}!'',
         example_world\<lparr>tool_calls := [read_memory_entry_call ''empty''],
                       logs := [(WARNING, ''No value found in memory for variable: empty'')]\<rparr>)
   \<and> map_of (memory (store files_world)) ''files'' = Some (JList [JStr ''a.json'', JStr ''b.json''])
   \<and> fst (replace_context_variables ''Read ${files}.'' (memory_func example_library) (\<lambda>x. x)
             Map.empty files_world)
      = ''Read a.json.''
   \<and> find_variables ''${p${q} ${q}'' = [''p${q'', ''q'']
   \<and> fst (replace_context_variables ''${p${q} ${q}'' (memory_func example_library) (\<lambda>x. x)
             [''q'' \<mapsto> ''Z''] fresh_world)
      = ''${pZ Z''
   \<and> find_variables ''${x${a}'' = [''x${a'']
   \<and> fst (replace_context_variables ''${x${a}'' (memory_func example_library) (\<lambda>x. x)
             [''a'' \<mapsto> ''V''] fresh_world)
      = ''${x${a}''"
  by (simp add: replace_context_variables_def placeholder_def call_def logger_def
        example_world_def files_world_def fresh_world_def empty_server_def served_def
        read_memory_entry_def path_exists_def place_of_def entry_found_def first_text_def
        no_entry_def)

text \<open>
  C3, amended. The names of a template are those that one scan finds, from left to right;
  the text \<^verbatim>\<open>${a}\<close> can stand in a template without \<open>a\<close> being one of them. The store is read
  for the names that the override map does not bind, once for each place in the scan and in
  that order, and never for a name the map binds. Over the memory server each read leaves one
  record in the log. Each name has its turn on the prompt as the turns before it left it
  (\<open>p1\<close> below): where the map binds the name, every \<^verbatim>\<open>${a}\<close> in that prompt is replaced by the
  override value; where it does not and the read finds an entry (the result has a first
  text, which is not the text for a missing entry), every \<^verbatim>\<open>${a}\<close> is replaced by that first
  text; where the read finds none, that prompt goes on to the next turn as it is, with a
  warning logged; where the read raises, the error is logged and the prompt goes on as it
  is. So the interpolation never raises. For a template with the single reference \<^verbatim>\<open>${a}\<close>
  (\<open>pre\<close> and \<open>post\<close> hold no \<^verbatim>\<open>$\<close>) this is the output. Of what the memory server holds
  under a name: the result of the read has the content items of the value, or the error
  text of the tool where the read fails; a key never written reads as the text for a
  missing entry; a string other than that text is an entry, and is the first text; a list
  of strings whose first is not that text is an entry, and its first string is the first
  text; null, the empty list and the text for a missing entry are no entry.
\<close>

theorem interpolation_cases:
  "(\<forall>q. tool_calls (snd (replace_context_variables q func str ov w)) =
          tool_calls w @ map read_memory_entry_call (filter (\<lambda>v. ov v = None) (find_variables q)))
   \<and> (\<forall>q. logs (snd (replace_context_variables q (memory_func lib) str ov wm)) =
          logs wm @ map (\<lambda>v. case fst (memory_func lib (store wm) (read_memory_entry_call v)) of
                            Inl e \<Rightarrow> (ERROR, ''Error replacing variable '' @ v @ '': '' @ str_exn e)
                          | Inr r \<Rightarrow>
                              if entry_found r
                              then (INFO, ''Replacing variable '' @ v @ '' with value: '' @ first_text r)
                              else (WARNING, ''No value found in memory for variable: '' @ v))
                     (filter (\<lambda>v. ov v = None) (find_variables q)))
   \<and> (\<forall>q vs1 vs2. find_variables q = vs1 @ a # vs2 \<longrightarrow>
        replace_context_variables q func str ov w =
          (case replace_each func str ov vs1 q w of
             (p1, w1) \<Rightarrow>
               (case ov a of
                  Some x \<Rightarrow> replace_each func str ov vs2 (str_replace (placeholder a) (str x) p1) w1
                | None \<Rightarrow>
                    (case call func (read_memory_entry_call a) w1 of
                       (Inr v, w') \<Rightarrow>
                         if entry_found v
                         then replace_each func str ov vs2
                                (str_replace (placeholder a) (first_text v) p1)
                                (logger INFO (''Replacing variable '' @ a @ '' with value: '' @ first_text v) w')
                         else replace_each func str ov vs2 p1
                                (logger WARNING (''No value found in memory for variable: '' @ a) w')
                     | (Inl e, w') \<Rightarrow>
                         replace_each func str ov vs2 p1
                           (logger ERROR (''Error replacing variable '' @ a @ '': '' @ str_exn e) w')))))
   \<and> (a \<noteq> [] \<and> CHR ''}'' \<notin> set a \<and> CHR ''$'' \<notin> set pre \<and> CHR ''$'' \<notin> set post \<longrightarrow>
        replace_context_variables (pre @ placeholder a @ post) func str ov w =
          (case ov a of
             Some x \<Rightarrow> (pre @ str x @ post, w)
           | None \<Rightarrow>
               (case call func (read_memory_entry_call a) w of
                  (Inr v, w') \<Rightarrow>
                    if entry_found v
                    then (pre @ first_text v @ post,
                          logger INFO (''Replacing variable '' @ a @ '' with value: '' @ first_text v) w')
                    else (pre @ placeholder a @ post,
                          logger WARNING (''No value found in memory for variable: '' @ a) w')
                | (Inl e, w') \<Rightarrow>
                    (pre @ placeholder a @ post,
                     logger ERROR (''Error replacing variable '' @ a @ '': '' @ str_exn e) w')))
        \<and> (ov a = None \<longrightarrow>
             (\<forall>t. fst (read_memory_entry lib a (store wm)) = Inr (JStr t) \<and> t \<noteq> no_entry \<longrightarrow>
                fst (replace_context_variables (pre @ placeholder a @ post) (memory_func lib) str ov wm)
                  = pre @ t @ post)
           \<and> (\<forall>x xs. fst (read_memory_entry lib a (store wm)) = Inr (JList (map JStr (x # xs)))
                      \<and> x \<noteq> no_entry \<longrightarrow>
                fst (replace_context_variables (pre @ placeholder a @ post) (memory_func lib) str ov wm)
                  = pre @ x @ post)
           \<and> (fst (read_memory_entry lib a (store wm)) \<in> {Inr JNull, Inr (JList []), Inr (JStr no_entry)} \<longrightarrow>
                fst (replace_context_variables (pre @ placeholder a @ post) (memory_func lib) str ov wm)
                  = pre @ placeholder a @ post
                \<and> logs (snd (replace_context_variables (pre @ placeholder a @ post) (memory_func lib) str ov wm))
                  = logs wm @ [(WARNING, ''No value found in memory for variable: '' @ a)])))
   \<and> (\<forall>s val. fst (read_memory_entry lib a s) = Inr val \<longrightarrow>
         fst (memory_func lib s (read_memory_entry_call a))
           = Inr \<lparr>content = convert_to_content lib val, isError = False\<rparr>)
   \<and> (\<forall>s e. fst (read_memory_entry lib a s) = Inl e \<longrightarrow>
         fst (memory_func lib s (read_memory_entry_call a))
           = Inr \<lparr>content = [TextContent (Some (''Error executing tool read_memory_entry: '' @ str_exn e))],
                  isError = True\<rparr>)
   \<and> (\<forall>s. map_of (memory s) a = None \<and> \<not> path_exists lib a (memory_dir s) \<longrightarrow>
         fst (read_memory_entry lib a s) = Inr (JStr no_entry))
   \<and> (\<forall>t. entry_found \<lparr>content = convert_to_content lib (JStr t), isError = False\<rparr> = (t \<noteq> no_entry)
          \<and> first_text \<lparr>content = convert_to_content lib (JStr t), isError = False\<rparr> = t)
   \<and> (\<forall>x xs. entry_found \<lparr>content = convert_to_content lib (JList (map JStr (x # xs))), isError = False\<rparr>
                = (x \<noteq> no_entry)
             \<and> first_text \<lparr>content = convert_to_content lib (JList (map JStr (x # xs))), isError = False\<rparr> = x)
   \<and> \<not> entry_found \<lparr>content = convert_to_content lib JNull, isError = False\<rparr>
   \<and> \<not> entry_found \<lparr>content = convert_to_content lib (JList []), isError = False\<rparr>"
proof -
  have shaped: "replace_context_variables (pre @ placeholder a @ post) func' str ov w' =
          (case ov a of
             Some x \<Rightarrow> (pre @ str x @ post, w')
           | None \<Rightarrow>
               (case call func' (read_memory_entry_call a) w' of
                  (Inr v, w'') \<Rightarrow>
                    if entry_found v
                    then (pre @ first_text v @ post,
                          logger INFO (''Replacing variable '' @ a @ '' with value: '' @ first_text v) w'')
                    else (pre @ placeholder a @ post,
                          logger WARNING (''No value found in memory for variable: '' @ a) w'')
                | (Inl e, w'') \<Rightarrow>
                    (pre @ placeholder a @ post,
                     logger ERROR (''Error replacing variable '' @ a @ '': '' @ str_exn e) w'')))"
    if "a \<noteq> []" "CHR ''}'' \<notin> set a" "CHR ''$'' \<notin> set pre" "CHR ''$'' \<notin> set post"
    for func' :: "'c tool_func" and w' :: "'c world"
    using that
    by (auto simp: replace_context_variables_def find_variables_single str_replace_single
          split: option.splits prod.splits sum.splits)
  have turn: "replace_context_variables q func str ov w =
          (case replace_each func str ov vs1 q w of
             (p1, w1) \<Rightarrow>
               (case ov a of
                  Some x \<Rightarrow> replace_each func str ov vs2 (str_replace (placeholder a) (str x) p1) w1
                | None \<Rightarrow>
                    (case call func (read_memory_entry_call a) w1 of
                       (Inr v, w') \<Rightarrow>
                         if entry_found v
                         then replace_each func str ov vs2
                                (str_replace (placeholder a) (first_text v) p1)
                                (logger INFO (''Replacing variable '' @ a @ '' with value: '' @ first_text v) w')
                         else replace_each func str ov vs2 p1
                                (logger WARNING (''No value found in memory for variable: '' @ a) w')
                     | (Inl e, w') \<Rightarrow>
                         replace_each func str ov vs2 p1
                           (logger ERROR (''Error replacing variable '' @ a @ '': '' @ str_exn e) w'))))"
    if "find_variables q = vs1 @ a # vs2" for q vs1 vs2
    unfolding replace_context_variables_def that replace_each_append
    by (auto split: option.splits prod.splits sum.splits)
  have found: "fst (replace_context_variables (pre @ placeholder a @ post) (memory_func lib) str ov wm)
               = pre @ first_text \<lparr>content = convert_to_content lib val, isError = False\<rparr> @ post"
    if sh: "a \<noteq> []" "CHR ''}'' \<notin> set a" "CHR ''$'' \<notin> set pre" "CHR ''$'' \<notin> set post"
      and oa: "ov a = None" and rd: "fst (read_memory_entry lib a (store wm)) = Inr val"
      and ef: "entry_found \<lparr>content = convert_to_content lib val, isError = False\<rparr>"
    for val
  proof -
    obtain s' where "read_memory_entry lib a (store wm) = (Inr val, s')"
      using rd by (cases "read_memory_entry lib a (store wm)") auto
    then show ?thesis
      using oa ef by (simp add: shaped[OF sh] call_def served_def logger_def)
  qed
  have missing: "fst (replace_context_variables (pre @ placeholder a @ post) (memory_func lib) str ov wm)
                  = pre @ placeholder a @ post
                \<and> logs (snd (replace_context_variables (pre @ placeholder a @ post) (memory_func lib) str ov wm))
                  = logs wm @ [(WARNING, ''No value found in memory for variable: '' @ a)]"
    if sh: "a \<noteq> []" "CHR ''}'' \<notin> set a" "CHR ''$'' \<notin> set pre" "CHR ''$'' \<notin> set post"
      and oa: "ov a = None" and rd: "fst (read_memory_entry lib a (store wm)) = Inr val"
      and ef: "\<not> entry_found \<lparr>content = convert_to_content lib val, isError = False\<rparr>"
    for val
  proof -
    obtain s' where "read_memory_entry lib a (store wm) = (Inr val, s')"
      using rd by (cases "read_memory_entry lib a (store wm)") auto
    then show ?thesis
      using oa ef by (simp add: shaped[OF sh] call_def served_def logger_def)
  qed
  have str_entry: "entry_found \<lparr>content = convert_to_content lib (JStr t), isError = False\<rparr> = (t \<noteq> no_entry)
          \<and> first_text \<lparr>content = convert_to_content lib (JStr t), isError = False\<rparr> = t" for t
    by (simp add: entry_found_def first_text_def)
  have list_entry: "entry_found \<lparr>content = convert_to_content lib (JList (map JStr (x # xs))), isError = False\<rparr>
                = (x \<noteq> no_entry)
             \<and> first_text \<lparr>content = convert_to_content lib (JList (map JStr (x # xs))), isError = False\<rparr> = x"
    for x xs
    by (simp add: entry_found_def first_text_def)
  have no_entries: "\<not> entry_found \<lparr>content = convert_to_content lib JNull, isError = False\<rparr>"
    "\<not> entry_found \<lparr>content = convert_to_content lib (JList []), isError = False\<rparr>"
    "\<not> entry_found \<lparr>content = convert_to_content lib (JStr no_entry), isError = False\<rparr>"
    by (simp_all add: entry_found_def)
  have single: "a \<noteq> [] \<and> CHR ''}'' \<notin> set a \<and> CHR ''$'' \<notin> set pre \<and> CHR ''$'' \<notin> set post \<longrightarrow>
        replace_context_variables (pre @ placeholder a @ post) func str ov w =
          (case ov a of
             Some x \<Rightarrow> (pre @ str x @ post, w)
           | None \<Rightarrow>
               (case call func (read_memory_entry_call a) w of
                  (Inr v, w') \<Rightarrow>
                    if entry_found v
                    then (pre @ first_text v @ post,
                          logger INFO (''Replacing variable '' @ a @ '' with value: '' @ first_text v) w')
                    else (pre @ placeholder a @ post,
                          logger WARNING (''No value found in memory for variable: '' @ a) w')
                | (Inl e, w') \<Rightarrow>
                    (pre @ placeholder a @ post,
                     logger ERROR (''Error replacing variable '' @ a @ '': '' @ str_exn e) w')))
        \<and> (ov a = None \<longrightarrow>
             (\<forall>t. fst (read_memory_entry lib a (store wm)) = Inr (JStr t) \<and> t \<noteq> no_entry \<longrightarrow>
                fst (replace_context_variables (pre @ placeholder a @ post) (memory_func lib) str ov wm)
                  = pre @ t @ post)
           \<and> (\<forall>x xs. fst (read_memory_entry lib a (store wm)) = Inr (JList (map JStr (x # xs)))
                      \<and> x \<noteq> no_entry \<longrightarrow>
                fst (replace_context_variables (pre @ placeholder a @ post) (memory_func lib) str ov wm)
                  = pre @ x @ post)
           \<and> (fst (read_memory_entry lib a (store wm)) \<in> {Inr JNull, Inr (JList []), Inr (JStr no_entry)} \<longrightarrow>
                fst (replace_context_variables (pre @ placeholder a @ post) (memory_func lib) str ov wm)
                  = pre @ placeholder a @ post
                \<and> logs (snd (replace_context_variables (pre @ placeholder a @ post) (memory_func lib) str ov wm))
                  = logs wm @ [(WARNING, ''No value found in memory for variable: '' @ a)]))"
  proof (intro impI allI conjI; (elim conjE)?)
    assume sh: "a \<noteq> []" "CHR ''}'' \<notin> set a" "CHR ''$'' \<notin> set pre" "CHR ''$'' \<notin> set post"
    show "replace_context_variables (pre @ placeholder a @ post) func str ov w =
          (case ov a of
             Some x \<Rightarrow> (pre @ str x @ post, w)
           | None \<Rightarrow>
               (case call func (read_memory_entry_call a) w of
                  (Inr v, w') \<Rightarrow>
                    if entry_found v
                    then (pre @ first_text v @ post,
                          logger INFO (''Replacing variable '' @ a @ '' with value: '' @ first_text v) w')
                    else (pre @ placeholder a @ post,
                          logger WARNING (''No value found in memory for variable: '' @ a) w')
                | (Inl e, w') \<Rightarrow>
                    (pre @ placeholder a @ post,
                     logger ERROR (''Error replacing variable '' @ a @ '': '' @ str_exn e) w')))"
      by (rule shaped[OF sh])
  next
    fix t
    assume sh: "a \<noteq> []" "CHR ''}'' \<notin> set a" "CHR ''$'' \<notin> set pre" "CHR ''$'' \<notin> set post"
      and oa: "ov a = None"
      and rd: "fst (read_memory_entry lib a (store wm)) = Inr (JStr t)" and tn: "t \<noteq> no_entry"
    from found[OF sh oa rd] tn str_entry[of t]
    show "fst (replace_context_variables (pre @ placeholder a @ post) (memory_func lib) str ov wm)
                  = pre @ t @ post" by simp
  next
    fix x xs
    assume sh: "a \<noteq> []" "CHR ''}'' \<notin> set a" "CHR ''$'' \<notin> set pre" "CHR ''$'' \<notin> set post"
      and oa: "ov a = None"
      and rd: "fst (read_memory_entry lib a (store wm)) = Inr (JList (map JStr (x # xs)))"
      and tn: "x \<noteq> no_entry"
    from found[OF sh oa rd] tn list_entry[of x xs]
    show "fst (replace_context_variables (pre @ placeholder a @ post) (memory_func lib) str ov wm)
                  = pre @ x @ post" by simp
  next
    assume sh: "a \<noteq> []" "CHR ''}'' \<notin> set a" "CHR ''$'' \<notin> set pre" "CHR ''$'' \<notin> set post"
      and oa: "ov a = None"
      and rd: "fst (read_memory_entry lib a (store wm)) \<in> {Inr JNull, Inr (JList []), Inr (JStr no_entry)}"
    from rd missing[OF sh oa _ no_entries(1)] missing[OF sh oa _ no_entries(2)]
      missing[OF sh oa _ no_entries(3)]
    show "fst (replace_context_variables (pre @ placeholder a @ post) (memory_func lib) str ov wm)
                  = pre @ placeholder a @ post" by auto
  next
    assume sh: "a \<noteq> []" "CHR ''}'' \<notin> set a" "CHR ''$'' \<notin> set pre" "CHR ''$'' \<notin> set post"
      and oa: "ov a = None"
      and rd: "fst (read_memory_entry lib a (store wm)) \<in> {Inr JNull, Inr (JList []), Inr (JStr no_entry)}"
    from rd missing[OF sh oa _ no_entries(1)] missing[OF sh oa _ no_entries(2)]
      missing[OF sh oa _ no_entries(3)]
    show "logs (snd (replace_context_variables (pre @ placeholder a @ post) (memory_func lib) str ov wm))
                  = logs wm @ [(WARNING, ''No value found in memory for variable: '' @ a)]" by auto
  qed
  have calls: "\<forall>q. tool_calls (snd (replace_context_variables q func str ov w)) =
          tool_calls w @ map read_memory_entry_call (filter (\<lambda>v. ov v = None) (find_variables q))"
    by (simp add: replace_context_variables_def tool_calls_replace_each)
  have records: "\<forall>q. logs (snd (replace_context_variables q (memory_func lib) str ov wm)) =
          logs wm @ map (\<lambda>v. case fst (memory_func lib (store wm) (read_memory_entry_call v)) of
                            Inl e \<Rightarrow> (ERROR, ''Error replacing variable '' @ v @ '': '' @ str_exn e)
                          | Inr r \<Rightarrow>
                              if entry_found r
                              then (INFO, ''Replacing variable '' @ v @ '' with value: '' @ first_text r)
                              else (WARNING, ''No value found in memory for variable: '' @ v))
                     (filter (\<lambda>v. ov v = None) (find_variables q))"
    by (simp add: replace_context_variables_def logs_replace_each del: memory_func.simps)
  show ?thesis
    apply (intro conjI)
    subgoal by (rule calls)
    subgoal by (rule records)
    subgoal using turn by blast
    subgoal by (rule single)
    subgoal using read_result_content by blast
    subgoal using read_result_error by blast
    subgoal using never_written_reads_sentinel by blast
    subgoal using str_entry by blast
    subgoal using list_entry by blast
    subgoal by (rule no_entries(1))
    subgoal by (rule no_entries(2))
    done
qed

text \<open>
  C3, amended, at concrete inputs: an overridden name, a name the store has, a name neither
  has, a tool client that raises, a stored list, a stored empty list, and the second turn
  of a template with two names.
\<close>

theorem interpolation_cases_witness:
  "replace_context_variables ''Hello ${name}!'' (memory_func example_library) (\<lambda>x. x)
       [''name'' \<mapsto> ''Bob''] example_world
     = (''Hello Bob!'', example_world)
   \<and> replace_context_variables ''Hello ${name}!'' (memory_func example_library) (\<lambda>x. x)
       Map.empty example_world
     = (''Hello Ada!'',
        example_world\<lparr>tool_calls := [read_memory_entry_call ''name''],
                      logs := [(INFO, ''Replacing variable name with value: Ada'')]\<rparr>)
   \<and> replace_context_variables ''Hello ${city}!'' (memory_func example_library) (\<lambda>x. x)
       Map.empty example_world
     = (''Hello ${city}!'',
        example_world\<lparr>tool_calls := [read_memory_entry_call ''city''],
                      logs := [(WARNING, ''No value found in memory for variable: city'')]\<rparr>)
   \<and> replace_context_variables ''Hello ${name}!'' (\<lambda>s c. (Inl (Exception ''closed''), s)) (\<lambda>x. x)
       Map.empty example_world
     = (''Hello ${name}!'',
        example_world\<lparr>tool_calls := [read_memory_entry_call ''name''],
                      logs := [(ERROR, ''Error replacing variable name: closed'')]\<rparr>)
   \<and> fst (read_memory_entry example_library ''files'' (store files_world))
     = Inr (JList (map JStr [''a.json'', ''b.json'']))
   \<and> fst (replace_context_variables ''Read ${files}.'' (memory_func example_library) (\<lambda>x. x)
            Map.empty files_world)
     = ''Read a.json.''
   \<and> fst (read_memory_entry example_library ''empty'' (store example_world)) = Inr (JList [])
   \<and> fst (replace_context_variables ''Hello ${empty}!'' (memory_func example_library) (\<lambda>x. x)
            Map.empty example_world)
     = ''Hello ${empty}!''
   \<and> find_variables ''${city}, ${name}'' = [''city''] @ ''name'' # []
   \<and> replace_context_variables ''${city}, ${name}'' (memory_func example_library) (\<lambda>x. x)
       Map.empty example_world
     = (''${city}, Ada'',
        example_world\<lparr>tool_calls := [read_memory_entry_call ''city'', read_memory_entry_call ''name''],
                      logs := [(WARNING, ''No value found in memory for variable: city''),
                               (INFO, ''Replacing variable name with value: Ada'')]\<rparr>)"
proof -
  have files: "fst (read_memory_entry example_library ''files'' (store files_world))
     = Inr (JList (map JStr (''a.json'' # [''b.json''])))"
    by (simp add: files_world_def read_memory_entry_def)
  have empty: "fst (read_memory_entry example_library ''empty'' (store example_world)) = Inr (JList [])"
    by (simp add: example_world_def read_memory_entry_def)
  have vars: "find_variables ''${city}, ${name}'' = [''city''] @ ''name'' # []"
    by simp
  have listed: "fst (replace_context_variables ''Read ${files}.'' (memory_func example_library) (\<lambda>x. x)
            Map.empty files_world) = ''Read a.json.''"
    using interpolation_cases[where a = "''files''" and pre = "''Read ''" and post = "''.''"
          and func = "memory_func example_library" and str = "\<lambda>x. x"
          and ov = "Map.empty :: string \<rightharpoonup> string" and w = files_world
          and lib = example_library and wm = files_world,
          THEN conjunct2, THEN conjunct2, THEN conjunct2, THEN conjunct1, THEN mp,
          THEN conjunct2, THEN mp,
          THEN conjunct2, THEN conjunct1, rule_format, of "''a.json''" "[''b.json'']"]
      files
    by (simp add: placeholder_def no_entry_def)
  have emptied: "fst (replace_context_variables ''Hello ${empty}!'' (memory_func example_library) (\<lambda>x. x)
            Map.empty example_world) = ''Hello ${empty}!''"
    using interpolation_cases[where a = "''empty''" and pre = "''Hello ''" and post = "''!''"
          and func = "memory_func example_library" and str = "\<lambda>x. x"
          and ov = "Map.empty :: string \<rightharpoonup> string" and w = example_world
          and lib = example_library and wm = example_world,
          THEN conjunct2, THEN conjunct2, THEN conjunct2, THEN conjunct1, THEN mp,
          THEN conjunct2, THEN mp,
          THEN conjunct2, THEN conjunct2, THEN mp, THEN conjunct1]
      empty
    by (simp add: placeholder_def)
  have second: "replace_context_variables ''${city}, ${name}'' (memory_func example_library) (\<lambda>x. x)
       Map.empty example_world
     = (''${city}, Ada'',
        example_world\<lparr>tool_calls := [read_memory_entry_call ''city'', read_memory_entry_call ''name''],
                      logs := [(WARNING, ''No value found in memory for variable: city''),
                               (INFO, ''Replacing variable name with value: Ada'')]\<rparr>)"
    using interpolation_cases[where a = "''name''"
          and func = "memory_func example_library" and str = "\<lambda>x. x"
          and ov = "Map.empty :: string \<rightharpoonup> string" and w = example_world
          and lib = example_library and wm = example_world,
          THEN conjunct2, THEN conjunct2, THEN conjunct1, rule_format,
          of "''${city}, ${name}''" "[''city'']" "[]", OF vars]
    by (simp add: placeholder_def call_def logger_def example_world_def served_def
        read_memory_entry_def path_exists_def place_of_def entry_found_def first_text_def no_entry_def)
  have firsts: "replace_context_variables ''Hello ${name}!'' (memory_func example_library) (\<lambda>x. x)
       [''name'' \<mapsto> ''Bob''] example_world
     = (''Hello Bob!'', example_world)
   \<and> replace_context_variables ''Hello ${name}!'' (memory_func example_library) (\<lambda>x. x)
       Map.empty example_world
     = (''Hello Ada!'',
        example_world\<lparr>tool_calls := [read_memory_entry_call ''name''],
                      logs := [(INFO, ''Replacing variable name with value: Ada'')]\<rparr>)
   \<and> replace_context_variables ''Hello ${city}!'' (memory_func example_library) (\<lambda>x. x)
       Map.empty example_world
     = (''Hello ${city}!'',
        example_world\<lparr>tool_calls := [read_memory_entry_call ''city''],
                      logs := [(WARNING, ''No value found in memory for variable: city'')]\<rparr>)
   \<and> replace_context_variables ''Hello ${name}!'' (\<lambda>s c. (Inl (Exception ''closed''), s)) (\<lambda>x. x)
       Map.empty example_world
     = (''Hello ${name}!'',
        example_world\<lparr>tool_calls := [read_memory_entry_call ''name''],
                      logs := [(ERROR, ''Error replacing variable name: closed'')]\<rparr>)"
    using interpolation_cases[where a = "''name''" and pre = "''Hello ''" and post = "''!''"
          and func = "memory_func example_library" and str = "\<lambda>x. x"
          and ov = "[''name'' \<mapsto> ''Bob'']" and w = example_world
          and lib = example_library and wm = example_world,
          THEN conjunct2, THEN conjunct2, THEN conjunct2, THEN conjunct1, THEN mp, THEN conjunct1]
        interpolation_cases[where a = "''name''" and pre = "''Hello ''" and post = "''!''"
          and func = "memory_func example_library" and str = "\<lambda>x. x"
          and ov = "Map.empty :: string \<rightharpoonup> string" and w = example_world
          and lib = example_library and wm = example_world,
          THEN conjunct2, THEN conjunct2, THEN conjunct2, THEN conjunct1, THEN mp, THEN conjunct1]
        interpolation_cases[where a = "''city''" and pre = "''Hello ''" and post = "''!''"
          and func = "memory_func example_library" and str = "\<lambda>x. x"
          and ov = "Map.empty :: string \<rightharpoonup> string" and w = example_world
          and lib = example_library and wm = example_world,
          THEN conjunct2, THEN conjunct2, THEN conjunct2, THEN conjunct1, THEN mp, THEN conjunct1]
        interpolation_cases[where a = "''name''" and pre = "''Hello ''" and post = "''!''"
          and func = "\<lambda>s c. (Inl (Exception ''closed''), s)" and str = "\<lambda>x. x"
          and ov = "Map.empty :: string \<rightharpoonup> string" and w = example_world
          and lib = example_library and wm = example_world,
          THEN conjunct2, THEN conjunct2, THEN conjunct2, THEN conjunct1, THEN mp, THEN conjunct1]
    by (simp add: placeholder_def call_def logger_def example_world_def served_def
        read_memory_entry_def path_exists_def place_of_def entry_found_def first_text_def no_entry_def)
  from firsts files listed empty emptied vars second show ?thesis by simp
qed

subsection \<open>Restart and the text for a missing entry\<close>




text \<open>
  C10. After the text \<^verbatim>\<open>No entry found for the given key.\<close> was written under a key
  (whether or not the file could be written), \<^verbatim>\<open>read_memory_entry\<close> returns that text, and
  the tool result is the one a key never written gives; \<^verbatim>\<open>process_context_memory_return_value\<close>
  maps it to \<^verbatim>\<open>None\<close>; the interpolation of any prompt gives what it gives when the key
  was never written; and the interpolation of \<^verbatim>\<open>${k}\<close> returns \<^verbatim>\<open>${k}\<close> and logs the warning
  of a missing value (for a key that can stand in a reference, and that the override map
  does not bind).
\<close>

theorem absent_sentinel_in_band:
  "(let s1 = snd (add_or_update_memory_entry lib k (JStr no_entry) s);
        absent = \<lparr>content = [TextContent (Some no_entry)], isError = False\<rparr>
    in fst (read_memory_entry lib k s1) = Inr (JStr no_entry)
     \<and> fst (memory_func lib s1 (read_memory_entry_call k)) = Inr absent
     \<and> (map_of (memory s) k = None \<and> \<not> path_exists lib k (memory_dir s) \<longrightarrow>
          fst (read_memory_entry lib k s) = Inr (JStr no_entry)
          \<and> fst (memory_func lib s (read_memory_entry_call k)) = Inr absent)
     \<and> process_context_memory_return_value absent = None
     \<and> (map_of (memory s) k = None \<and> \<not> path_exists lib k (memory_dir s) \<longrightarrow>
          (\<forall>prompt. fst (replace_context_variables prompt (memory_func lib) str ov (w\<lparr>store := s1\<rparr>))
                   = fst (replace_context_variables prompt (memory_func lib) str ov (w\<lparr>store := s\<rparr>))))
     \<and> (k \<noteq> [] \<and> CHR ''}'' \<notin> set k \<and> ov k = None \<longrightarrow>
          fst (replace_context_variables (placeholder k) (memory_func lib) str ov (w\<lparr>store := s1\<rparr>))
            = placeholder k
          \<and> (WARNING, ''No value found in memory for variable: '' @ k)
              \<in> set (logs (snd (replace_context_variables (placeholder k) (memory_func lib) str ov
                                  (w\<lparr>store := s1\<rparr>))))))"
proof -
  define s1 where "s1 = snd (add_or_update_memory_entry lib k (JStr no_entry) s)"
  have r: "fst (read_memory_entry lib k s1) = Inr (JStr no_entry)"
    unfolding s1_def by (rule read_after_write)
  have f: "fst (memory_func lib s1 (read_memory_entry_call k))
             = Inr \<lparr>content = [TextContent (Some no_entry)], isError = False\<rparr>"
    using r by (cases "read_memory_entry lib k s1") (auto simp: served_def)
  have a: "map_of (memory s) k = None \<and> \<not> path_exists lib k (memory_dir s) \<longrightarrow>
          fst (read_memory_entry lib k s) = Inr (JStr no_entry)
          \<and> fst (memory_func lib s (read_memory_entry_call k))
               = Inr \<lparr>content = [TextContent (Some no_entry)], isError = False\<rparr>"
    by (auto simp: read_memory_entry_def served_def)
  have p: "process_context_memory_return_value
             \<lparr>content = [TextContent (Some no_entry)], isError = False\<rparr> = None"
    by (simp add: process_context_memory_return_value_def)
  have i: "k \<noteq> [] \<and> CHR ''}'' \<notin> set k \<and> ov k = None \<longrightarrow>
          fst (replace_context_variables (placeholder k) (memory_func lib) str ov (w\<lparr>store := s1\<rparr>))
            = placeholder k
          \<and> (WARNING, ''No value found in memory for variable: '' @ k)
              \<in> set (logs (snd (replace_context_variables (placeholder k) (memory_func lib) str ov
                                  (w\<lparr>store := s1\<rparr>))))"
  proof (intro impI, elim conjE)
    assume k: "k \<noteq> []" "CHR ''}'' \<notin> set k" "ov k = None"
    have v: "find_variables (placeholder k) = [k]"
      using find_variables_single[of k "[]" "[]"] k by simp
    obtain s2 where m: "memory_func lib s1 (read_memory_entry_call k)
        = (Inr \<lparr>content = [TextContent (Some no_entry)], isError = False\<rparr>, s2)"
      using f by (cases "memory_func lib s1 (read_memory_entry_call k)") auto
    show "fst (replace_context_variables (placeholder k) (memory_func lib) str ov (w\<lparr>store := s1\<rparr>))
            = placeholder k
          \<and> (WARNING, ''No value found in memory for variable: '' @ k)
              \<in> set (logs (snd (replace_context_variables (placeholder k) (memory_func lib) str ov
                                  (w\<lparr>store := s1\<rparr>))))"
      using m k(3) by (simp add: replace_context_variables_def v call_def logger_def)
  qed
  have g: "map_of (memory s) k = None \<and> \<not> path_exists lib k (memory_dir s) \<longrightarrow>
          (\<forall>prompt. fst (replace_context_variables prompt (memory_func lib) str ov (w\<lparr>store := s1\<rparr>))
                   = fst (replace_context_variables prompt (memory_func lib) str ov (w\<lparr>store := s\<rparr>)))"
    unfolding s1_def using interpolation_after_sentinel[where s = s and k = k and lib = lib and str = str and ov = ov and w = w] by blast
  show ?thesis
    unfolding Let_def s1_def[symmetric] using r f a p g i by blast
qed

text \<open>
  C10, at a concrete input: the key \<^verbatim>\<open>answer\<close>, written to an empty server, against the
  same key never written.
\<close>

theorem absent_sentinel_in_band_witness:
  "fst (read_memory_entry example_library ''answer''
          (snd (add_or_update_memory_entry example_library ''answer'' (JStr no_entry) empty_server)))
     = Inr (JStr no_entry)
   \<and> fst (memory_func example_library
            (snd (add_or_update_memory_entry example_library ''answer'' (JStr no_entry) empty_server))
            (read_memory_entry_call ''answer''))
     = Inr \<lparr>content = [TextContent (Some no_entry)], isError = False\<rparr>
   \<and> map_of (memory empty_server) ''answer'' = None
   \<and> \<not> path_exists example_library ''answer'' (memory_dir empty_server)
   \<and> fst (memory_func example_library empty_server (read_memory_entry_call ''answer''))
     = Inr \<lparr>content = [TextContent (Some no_entry)], isError = False\<rparr>
   \<and> process_context_memory_return_value \<lparr>content = [TextContent (Some no_entry)], isError = False\<rparr>
     = None
   \<and> fst (replace_context_variables ''${answer}'' (memory_func example_library) (\<lambda>x. x) Map.empty
            (fresh_world\<lparr>store := snd (add_or_update_memory_entry example_library ''answer''
                                          (JStr no_entry) empty_server)\<rparr>))
     = ''${answer}''
   \<and> fst (replace_context_variables ''${answer}'' (memory_func example_library) (\<lambda>x. x) Map.empty
            fresh_world)
     = ''${answer}''"
proof -
  have a: "map_of (memory empty_server) ''answer'' = None \<and> \<not> path_exists example_library ''answer'' (memory_dir empty_server)"
    by (simp add: empty_server_def path_exists_def place_of_def)
  have b: "fst (replace_context_variables ''${answer}'' (memory_func example_library) (\<lambda>x. x) Map.empty
            fresh_world) = ''${answer}''"
    by (simp add: replace_context_variables_def call_def logger_def fresh_world_def empty_server_def
          read_memory_entry_def path_exists_def place_of_def served_def entry_found_def)
  have c: "fresh_world\<lparr>store := empty_server\<rparr> = fresh_world"
    by (simp add: fresh_world_def)
  from absent_sentinel_in_band[where lib = example_library and k = "''answer''" and s = empty_server
      and ov = "Map.empty :: string \<rightharpoonup> string" and str = "\<lambda>x. x" and w = fresh_world, unfolded Let_def]
    a b c
  show ?thesis by (simp add: placeholder_def)
qed

section \<open>Properties of the step engine\<close>

text \<open>
  C1. For a skippable step whose entry \<^verbatim>\<open><qualified id>_status\<close> reads as \<^verbatim>\<open>"done"\<close>,
  \<^verbatim>\<open>execute\<close> returns after the one read of that entry, whatever \<^verbatim>\<open>actual_execute\<close> is: it is
  not invoked. No agent is invoked, the backing directory is as before, and every key reads
  as before.
\<close>

theorem execute_skips_done_step:
  "skippable self
   \<and> fst (read_memory_entry lib (get_id self parent_id @ ''_status'') (store w)) = Inr (JStr ''done'')
   \<longrightarrow>
   (let key = get_id self parent_id @ ''_status'';
        w' = w\<lparr>store := snd (read_memory_entry lib key (store w)),
               tool_calls := tool_calls w @ [read_memory_entry_call key],
               logs := logs w @
                 [(INFO, ''Checking if step '' @ get_id self parent_id @ '' is done before or not''),
                  (INFO, ''Step '' @ get_id self parent_id @ '' is done before'')]\<rparr>
    in (\<forall>actual_execute.
          execute actual_execute self summary prefix' (memory_func lib) profiles ov parent_id w
            = (Inr (), w'))
     \<and> agent_calls w' = agent_calls w
     \<and> memory_dir (store w') = memory_dir (store w)
     \<and> (\<forall>k. fst (read_memory_entry lib k (store w')) = fst (read_memory_entry lib k (store w))))"
proof (intro impI, elim conjE)
  let ?key = "get_id self parent_id @ ''_status''"
  assume sk: "skippable self" and d: "fst (read_memory_entry lib ?key (store w)) = Inr (JStr ''done'')"
  obtain s' where r: "read_memory_entry lib ?key (store w) = (Inr (JStr ''done''), s')"
    using d by (cases "read_memory_entry lib ?key (store w)") auto
  note fr = read_memory_entry_frame[OF r]
  show "(let key = get_id self parent_id @ ''_status'';
        w' = w\<lparr>store := snd (read_memory_entry lib key (store w)),
               tool_calls := tool_calls w @ [read_memory_entry_call key],
               logs := logs w @
                 [(INFO, ''Checking if step '' @ get_id self parent_id @ '' is done before or not''),
                  (INFO, ''Step '' @ get_id self parent_id @ '' is done before'')]\<rparr>
    in (\<forall>actual_execute.
          execute actual_execute self summary prefix' (memory_func lib) profiles ov parent_id w
            = (Inr (), w'))
     \<and> agent_calls w' = agent_calls w
     \<and> memory_dir (store w') = memory_dir (store w)
     \<and> (\<forall>k. fst (read_memory_entry lib k (store w')) = fst (read_memory_entry lib k (store w))))"
    using sk fr by (simp add: Let_def execute_def call_def logger_def served_def r)
qed

text \<open>
  C1, at a concrete input: the step \<^verbatim>\<open>s1\<close>, done before, with an \<^verbatim>\<open>actual_execute\<close> that would
  write an entry and invoke an agent.
\<close>

theorem execute_skips_done_step_witness:
  "skippable step_one
   \<and> fst (read_memory_entry example_library (get_id step_one None @ ''_status'') (store done_world))
       = Inr (JStr ''done'')
   \<and> execute working step_one [] ''1'' (memory_func example_library) [''p0''] Map.empty None done_world
       = (Inr (),
          done_world\<lparr>tool_calls := [read_memory_entry_call ''s1_status''],
                     logs := [(INFO, ''Checking if step s1 is done before or not''),
                              (INFO, ''Step s1 is done before'')]\<rparr>)"
proof -
  have a: "skippable step_one" by (simp add: step_one_def)
  have b: "fst (read_memory_entry example_library (get_id step_one None @ ''_status'') (store done_world))
       = Inr (JStr ''done'')"
    by (simp add: read_memory_entry_def get_id_def step_one_def done_world_def)
  have c: "snd (read_memory_entry example_library ''s1_status'' (store done_world)) = store done_world"
    by (simp add: read_memory_entry_def done_world_def)
  from execute_skips_done_step[where self = step_one and parent_id = None and lib = example_library
      and w = done_world and summary = "[]" and prefix' = "''1''" and profiles = "[''p0'']"
      and ov = "Map.empty :: string \<rightharpoonup> string"] a b
  have "execute working step_one [] ''1'' (memory_func example_library) [''p0''] Map.empty None done_world
       = (Inr (),
          done_world\<lparr>store := snd (read_memory_entry example_library (get_id step_one None @ ''_status'') (store done_world)),
               tool_calls := tool_calls done_world @ [read_memory_entry_call (get_id step_one None @ ''_status'')],
               logs := logs done_world @
                 [(INFO, ''Checking if step '' @ get_id step_one None @ '' is done before or not''),
                  (INFO, ''Step '' @ get_id step_one None @ '' is done before'')]\<rparr>)"
    unfolding Let_def by blast
  then show ?thesis using a b c by (simp add: get_id_def step_one_def done_world_def)
qed

lemma agent_calls_replace_each:
  "agent_calls (snd (replace_each func str ov vars prompt w)) = agent_calls w"
  by (induction vars arbitrary: prompt w)
     (auto simp: call_def logger_def split: option.splits prod.splits sum.splits)

lemma agent_calls_replace_context_variables:
  "replace_context_variables p func str ov w = (q, w') \<Longrightarrow> agent_calls w' = agent_calls w"
  using agent_calls_replace_each[of func str ov "find_variables p" p w]
  by (simp add: replace_context_variables_def)

lemma agent_calls_create_agent:
  "create_agent agents profile w = (r, w') \<Longrightarrow> agent_calls w' = agent_calls w"
  by (auto simp: create_agent_def split: prod.splits)

lemma get_expression_list_Inr:
  assumes "expression_list_func self = None" "expression_list_func_with_params self = None"
    and "get_expression_list self agents str summary prefix' (memory_func lib) profile ov parent_id w
           = (Inr xs, w')"
  shows "\<exists>v. memory_func lib (store w') (read_memory_entry_call (get_id self parent_id @ ''_expression_list''))
               = (Inr v, store w') \<and> entry_found v \<and> texts v = xs"
proof -
  let ?key = "get_id self parent_id @ ''_expression_list''"
  let ?w0 = "logger INFO (''Checking if expression list is calculated before or not for step ''
                               @ get_id self parent_id) w"
  obtain v s1 where c1: "call (memory_func lib) (read_memory_entry_call ?key) ?w0
      = (Inr v, ?w0\<lparr>store := s1, tool_calls := tool_calls ?w0 @ [read_memory_entry_call ?key]\<rparr>)"
    and m1: "memory_func lib (store ?w0) (read_memory_entry_call ?key) = (Inr v, s1)"
    using call_memory_func[of lib "read_memory_entry_call ?key" ?w0] by blast
  show ?thesis
  proof (cases "entry_found v")
    case True
    with assms c1 have "xs = texts v" "store w' = s1"
      by (auto simp: get_expression_list_def Let_def)
    with memory_func_read_again[OF m1] True show ?thesis by auto
  next
    case False
    let ?w2 = "logger INFO (''Calculating the expression list for step '' @ get_id self parent_id)
                 (?w0\<lparr>store := s1, tool_calls := tool_calls ?w0 @ [read_memory_entry_call ?key]\<rparr>)"
    obtain c wa where ca: "create_agent agents profile ?w2 = (c, wa)"
      by (cases "create_agent agents profile ?w2")
    from assms False c1 ca obtain agent where ag: "c = Inr agent"
      by (cases c) (auto simp: get_expression_list_def Let_def)
    obtain prompt w3 where rc: "replace_context_variables
        (expression_list_prompt self summary prefix' parent_id) (memory_func lib) str ov wa = (prompt, w3)"
      by (cases "replace_context_variables
        (expression_list_prompt self summary prefix' parent_id) (memory_func lib) str ov wa")
    obtain a w4 where ia: "invoke_agent agent profile prompt w3 = (a, w4)"
      by (cases "invoke_agent agent profile prompt w3")
    let ?w5 = "logger INFO (''Reading the calculated expression list for step '' @ get_id self parent_id)
                 (logger INFO (''Calculating the expression list for task ''
                                 @ get_id self parent_id @ '' completed'') w4)"
    obtain v' s6 where c6: "call (memory_func lib) (read_memory_entry_call ?key) ?w5
      = (Inr v', ?w5\<lparr>store := s6, tool_calls := tool_calls ?w5 @ [read_memory_entry_call ?key]\<rparr>)"
    and m6: "memory_func lib (store ?w5) (read_memory_entry_call ?key) = (Inr v', s6)"
      using call_memory_func[of lib "read_memory_entry_call ?key" ?w5] by blast
    from assms False c1 ca ag rc ia c6 have "entry_found v' \<and> xs = texts v' \<and> store w' = s6"
      by (auto simp: get_expression_list_def Let_def logger_def split: sum.splits if_splits)
    with memory_func_read_again[OF m6] show ?thesis by auto
  qed
qed

lemma loop_step_prompt_plain: "find_variables (expression_list_prompt loop_step [''Overview''] ''1'' None) = []"
  by (simp add: expression_list_prompt_def loop_step_def nl_def get_id_def)

lemmas resolve_simps =
  get_expression_list_def loop_step_def[THEN arg_cong, of expression_list_func]
      loop_step_def[THEN arg_cong, of expression_list_func_with_params]
      replace_context_variables_def loop_step_prompt_plain call_def logger_def fresh_world_def empty_server_def
      read_memory_entry_def served_def path_exists_def place_of_def entry_found_def no_entry_def
      create_agent_def invoke_agent_def add_or_update_memory_entry_def write_file_def texts_def
      example_library_def get_id_def[of loop_step] loop_step_def[THEN arg_cong, of step_id]

text \<open>
  C2, as stated, fails. A key that holds the empty list holds a value, yet an agent is
  invoked to compute the list; the agent stores nothing, the key holds the empty list as
  before, and the call raises. An agent that stores the empty list under a key never
  written leaves the key present, and the call raises as well.
\<close>

theorem expression_list_present_yet_computed:
  "map_of (memory (store held_empty_world)) ''loop_expression_list'' = Some (JList [])
   \<and> fst (read_memory_entry example_library ''loop_expression_list'' (store held_empty_world))
       = Inr (JList [])
   \<and> agent_calls (snd (get_expression_list loop_step idle_agent dumps [''Overview''] ''1''
             (memory_func example_library) ''p0'' Map.empty None held_empty_world))
       = [(''p0'', expression_list_prompt loop_step [''Overview''] ''1'' None)]
   \<and> fst (get_expression_list loop_step idle_agent dumps [''Overview''] ''1''
             (memory_func example_library) ''p0'' Map.empty None held_empty_world)
       = Inl (Exception ''Failed to calculate expression_list'')
   \<and> fst (read_memory_entry example_library ''loop_expression_list''
            (store (snd (get_expression_list loop_step idle_agent dumps [''Overview''] ''1''
                           (memory_func example_library) ''p0'' Map.empty None held_empty_world))))
       = Inr (JList [])
   \<and> map_of (memory (store fresh_world)) ''loop_expression_list'' = None
   \<and> fst (get_expression_list loop_step empty_list_agent dumps [''Overview''] ''1''
             (memory_func example_library) ''p0'' Map.empty None fresh_world)
       = Inl (Exception ''Failed to calculate expression_list'')
   \<and> fst (read_memory_entry example_library ''loop_expression_list''
            (store (snd (get_expression_list loop_step empty_list_agent dumps [''Overview''] ''1''
                           (memory_func example_library) ''p0'' Map.empty None fresh_world))))
       = Inr (JList [])"
  by (simp add: resolve_simps held_empty_world_def idle_agent_def empty_list_agent_def
        del: dumps.simps)

text \<open>
  C2, amended. A ForEach without a list-producing callable reads \<^verbatim>\<open><qualified id>_expression_list\<close>.
  The read finds a list when its result has a first text that is not the text for a missing
  entry. Where the first read finds a list, the texts of the result are the list, and no
  agent is made or invoked. Where it does not, an agent is made for the profile; if that
  raises, the call raises the same with no agent invoked; otherwise the agent is invoked
  once, with the interpolated prompt. What the agent raises, the call raises. When the agent
  has returned, the key is read again, and the call raises
  \<^verbatim>\<open>Failed to calculate expression_list\<close> if and only if that read finds no list, and returns
  the texts otherwise. A second call, on the state the first one left when it returned a
  list, returns the same list and invokes no agent. Of what the memory server holds under
  the key: the result of the read has the content items of the value held; a string other
  than the text for a missing entry is found, as the list of that one string; a list of
  strings whose first is not that text is found, and is the list; a key never written, and
  one that holds null, the empty list or the text for a missing entry, are not found, so
  that an agent is made. Where the read fails in the server, its result is the error text
  of the tool, which is found: the list is that one text, and no agent is made.
\<close>

theorem expression_list_memoized:
  "expression_list_func self = None \<and> expression_list_func_with_params self = None \<longrightarrow>
   (let key = get_id self parent_id @ ''_expression_list'';
        resolve = get_expression_list self agents str summary prefix' (memory_func lib) profile ov parent_id;
        w0 = logger INFO (''Checking if expression list is calculated before or not for step ''
                            @ get_id self parent_id) w;
        computed = (\<lambda>w1.
          case create_agent agents profile
                 (logger INFO (''Calculating the expression list for step '' @ get_id self parent_id) w1) of
            (Inl e, wa) \<Rightarrow> resolve w = (Inl e, wa) \<and> agent_calls wa = agent_calls w
          | (Inr agent, wa) \<Rightarrow>
              (case replace_context_variables (expression_list_prompt self summary prefix' parent_id)
                      (memory_func lib) str ov wa of
                 (prompt, w3) \<Rightarrow>
                   agent_calls (snd (resolve w)) = agent_calls w @ [(profile, prompt)]
                   \<and> (case invoke_agent agent profile prompt w3 of
                         (Inl e, w4) \<Rightarrow> resolve w = (Inl e, w4)
                       | (Inr response, w4) \<Rightarrow>
                           (case call (memory_func lib) (read_memory_entry_call key)
                                   (logger INFO (''Reading the calculated expression list for step ''
                                                   @ get_id self parent_id)
                                      (logger INFO (''Calculating the expression list for task ''
                                                      @ get_id self parent_id @ '' completed'') w4)) of
                              (Inl e, w6) \<Rightarrow> False
                            | (Inr v', w6) \<Rightarrow>
                                (fst (resolve w) = Inl (Exception ''Failed to calculate expression_list''))
                                  = (\<not> entry_found v')
                                \<and> (entry_found v' \<longrightarrow> fst (resolve w) = Inr (texts v'))))))
    in (case call (memory_func lib) (read_memory_entry_call key) w0 of
          (Inl e, w1) \<Rightarrow> False
        | (Inr v, w1) \<Rightarrow>
            if entry_found v then resolve w = (Inr (texts v), w1) \<and> agent_calls w1 = agent_calls w
            else computed w1)
     \<and> (\<forall>xs w'. resolve w = (Inr xs, w') \<longrightarrow>
           fst (resolve w') = Inr xs \<and> agent_calls (snd (resolve w')) = agent_calls w')
     \<and> (\<forall>t. fst (read_memory_entry lib key (store w)) = Inr (JStr t) \<and> t \<noteq> no_entry \<longrightarrow>
           fst (resolve w) = Inr [JStr t] \<and> agent_calls (snd (resolve w)) = agent_calls w)
     \<and> (\<forall>x xs. fst (read_memory_entry lib key (store w)) = Inr (JList (map JStr (x # xs)))
                 \<and> x \<noteq> no_entry \<longrightarrow>
           fst (resolve w) = Inr (map JStr (x # xs)) \<and> agent_calls (snd (resolve w)) = agent_calls w)
     \<and> (\<forall>val. fst (read_memory_entry lib key (store w)) = Inr val \<longrightarrow>
           fst (call (memory_func lib) (read_memory_entry_call key) w0)
             = Inr \<lparr>content = convert_to_content lib val, isError = False\<rparr>)
     \<and> (\<forall>e. fst (read_memory_entry lib key (store w)) = Inl e \<longrightarrow>
           fst (call (memory_func lib) (read_memory_entry_call key) w0)
             = Inr \<lparr>content = [TextContent (Some (''Error executing tool read_memory_entry: '' @ str_exn e))],
                    isError = True\<rparr>
           \<and> fst (resolve w) = Inr [JStr (''Error executing tool read_memory_entry: '' @ str_exn e)]
           \<and> agent_calls (snd (resolve w)) = agent_calls w)
     \<and> ((map_of (memory (store w)) key = None \<and> \<not> path_exists lib key (memory_dir (store w)))
          \<or> fst (read_memory_entry lib key (store w)) \<in> {Inr JNull, Inr (JList []), Inr (JStr no_entry)} \<longrightarrow>
           computed (snd (call (memory_func lib) (read_memory_entry_call key) w0))
           \<and> ((\<exists>prompt. agent_calls (snd (resolve w)) = agent_calls w @ [(profile, prompt)])
              \<or> (\<exists>e. fst (create_agent agents profile
                             (logger INFO (''Calculating the expression list for step ''
                                             @ get_id self parent_id)
                                (snd (call (memory_func lib) (read_memory_entry_call key) w0)))) = Inl e
                      \<and> fst (resolve w) = Inl e \<and> agent_calls (snd (resolve w)) = agent_calls w))))"
proof (intro impI, elim conjE)
  assume n1: "expression_list_func self = None" and n2: "expression_list_func_with_params self = None"
  let ?key = "get_id self parent_id @ ''_expression_list''"
  let ?resolve = "get_expression_list self agents str summary prefix' (memory_func lib) profile ov parent_id"
  let ?w0 = "logger INFO (''Checking if expression list is calculated before or not for step ''
                            @ get_id self parent_id) w"
  let ?computed = "\<lambda>w1.
          case create_agent agents profile
                 (logger INFO (''Calculating the expression list for step '' @ get_id self parent_id) w1) of
            (Inl e, wa) \<Rightarrow> ?resolve w = (Inl e, wa) \<and> agent_calls wa = agent_calls w
          | (Inr agent, wa) \<Rightarrow>
              (case replace_context_variables (expression_list_prompt self summary prefix' parent_id)
                      (memory_func lib) str ov wa of
                 (prompt, w3) \<Rightarrow>
                   agent_calls (snd (?resolve w)) = agent_calls w @ [(profile, prompt)]
                   \<and> (case invoke_agent agent profile prompt w3 of
                         (Inl e, w4) \<Rightarrow> ?resolve w = (Inl e, w4)
                       | (Inr response, w4) \<Rightarrow>
                           (case call (memory_func lib) (read_memory_entry_call ?key)
                                   (logger INFO (''Reading the calculated expression list for step ''
                                                   @ get_id self parent_id)
                                      (logger INFO (''Calculating the expression list for task ''
                                                      @ get_id self parent_id @ '' completed'') w4)) of
                              (Inl e, w6) \<Rightarrow> False
                            | (Inr v', w6) \<Rightarrow>
                                (fst (?resolve w) = Inl (Exception ''Failed to calculate expression_list''))
                                  = (\<not> entry_found v')
                                \<and> (entry_found v' \<longrightarrow> fst (?resolve w) = Inr (texts v')))))"
  have twice: "fst (?resolve w') = Inr xs \<and> agent_calls (snd (?resolve w')) = agent_calls w'"
    if "?resolve w = (Inr xs, w')" for xs w'
  proof -
    from get_expression_list_Inr[OF n1 n2 that] obtain v where
      v: "memory_func lib (store w') (read_memory_entry_call ?key) = (Inr v, store w')"
         "entry_found v" "texts v = xs" by blast
    then show ?thesis
      by (simp add: get_expression_list_def n1 n2 Let_def call_def logger_def)
  qed
  obtain v s1 where c1: "call (memory_func lib) (read_memory_entry_call ?key) ?w0
      = (Inr v, ?w0\<lparr>store := s1, tool_calls := tool_calls ?w0 @ [read_memory_entry_call ?key]\<rparr>)"
    and m1: "memory_func lib (store w) (read_memory_entry_call ?key) = (Inr v, s1)"
    using call_memory_func[of lib "read_memory_entry_call ?key" ?w0] by (auto simp: logger_def)
  let ?w1 = "?w0\<lparr>store := s1, tool_calls := tool_calls ?w0 @ [read_memory_entry_call ?key]\<rparr>"
  have found: "?resolve w = (Inr (texts v), ?w1) \<and> agent_calls ?w1 = agent_calls w" if "entry_found v"
    using that c1 by (simp add: get_expression_list_def n1 n2 Let_def logger_def)
  have computed: "?computed ?w1" if nf: "\<not> entry_found v"
  proof -
    let ?w2 = "logger INFO (''Calculating the expression list for step '' @ get_id self parent_id) ?w1"
    obtain c wa where ca: "create_agent agents profile ?w2 = (c, wa)"
      by (cases "create_agent agents profile ?w2")
    have aca: "agent_calls wa = agent_calls w"
      using agent_calls_create_agent[OF ca] by (simp add: logger_def)
    show ?thesis
    proof (cases c)
      case (Inl e)
      then show ?thesis
        using nf c1 ca aca by (simp add: get_expression_list_def n1 n2 Let_def)
    next
      case (Inr agent)
      obtain prompt w3 where rc: "replace_context_variables
          (expression_list_prompt self summary prefix' parent_id) (memory_func lib) str ov wa = (prompt, w3)"
        by (cases "replace_context_variables
          (expression_list_prompt self summary prefix' parent_id) (memory_func lib) str ov wa")
      have ac3: "agent_calls w3 = agent_calls w"
        using agent_calls_replace_context_variables[OF rc] aca by simp
      obtain a w4 where ia: "invoke_agent agent profile prompt w3 = (a, w4)"
        by (cases "invoke_agent agent profile prompt w3")
      have ac4: "agent_calls w4 = agent_calls w @ [(profile, prompt)]"
        using ia ac3 by (auto simp: invoke_agent_def split: prod.splits)
      let ?w5 = "logger INFO (''Reading the calculated expression list for step '' @ get_id self parent_id)
                   (logger INFO (''Calculating the expression list for task ''
                                   @ get_id self parent_id @ '' completed'') w4)"
      obtain v' s6 where c6: "call (memory_func lib) (read_memory_entry_call ?key) ?w5
        = (Inr v', ?w5\<lparr>store := s6, tool_calls := tool_calls ?w5 @ [read_memory_entry_call ?key]\<rparr>)"
        using call_memory_func[of lib "read_memory_entry_call ?key" ?w5] by blast
      show ?thesis
        using nf c1 ca Inr rc ia c6 ac4
        by (cases a) (simp_all add: get_expression_list_def n1 n2 Let_def logger_def)
    qed
  qed
  have first: "(case call (memory_func lib) (read_memory_entry_call ?key) ?w0 of
          (Inl e, w1) \<Rightarrow> False
        | (Inr v, w1) \<Rightarrow>
            if entry_found v then ?resolve w = (Inr (texts v), w1) \<and> agent_calls w1 = agent_calls w
            else ?computed w1)"
    unfolding c1 prod.case sum.case using found computed by (cases "entry_found v") simp_all
  have content: "v = \<lparr>content = convert_to_content lib val, isError = False\<rparr>"
    if "fst (read_memory_entry lib ?key (store w)) = Inr val" for val
    using read_result_content[OF that] m1 by simp
  have held: "fst (call (memory_func lib) (read_memory_entry_call ?key) ?w0)
             = Inr \<lparr>content = convert_to_content lib val, isError = False\<rparr>"
    if "fst (read_memory_entry lib ?key (store w)) = Inr val" for val
    unfolding c1 using content[OF that] by simp
  have failed: "fst (call (memory_func lib) (read_memory_entry_call ?key) ?w0)
             = Inr \<lparr>content = [TextContent (Some (''Error executing tool read_memory_entry: '' @ str_exn e))],
                    isError = True\<rparr>
           \<and> fst (?resolve w) = Inr [JStr (''Error executing tool read_memory_entry: '' @ str_exn e)]
           \<and> agent_calls (snd (?resolve w)) = agent_calls w"
    if "fst (read_memory_entry lib ?key (store w)) = Inl e" for e
  proof -
    from read_result_error[OF that] m1
    have v: "v = \<lparr>content = [TextContent (Some (''Error executing tool read_memory_entry: '' @ str_exn e))],
                    isError = True\<rparr>" by simp
    then have "entry_found v" "texts v = [JStr (''Error executing tool read_memory_entry: '' @ str_exn e)]"
      by (simp_all add: entry_found_def texts_def no_entry_def)
    with found v show ?thesis unfolding c1 by simp
  qed
  have string: "fst (?resolve w) = Inr [JStr t] \<and> agent_calls (snd (?resolve w)) = agent_calls w"
    if "fst (read_memory_entry lib ?key (store w)) = Inr (JStr t) \<and> t \<noteq> no_entry" for t
  proof -
    from content[of "JStr t"] that have "entry_found v" "texts v = [JStr t]"
      by (simp_all add: entry_found_def texts_def)
    with found show ?thesis by simp
  qed
  have stored: "fst (?resolve w) = Inr (map JStr (x # xs)) \<and> agent_calls (snd (?resolve w)) = agent_calls w"
    if "fst (read_memory_entry lib ?key (store w)) = Inr (JList (map JStr (x # xs))) \<and> x \<noteq> no_entry"
    for x xs
  proof -
    from stored_list_found[of lib ?key "store w" x xs] that m1
    have "entry_found v" "texts v = map JStr (x # xs)" by auto
    with found show ?thesis by simp
  qed
  have fresh: "?computed (snd (call (memory_func lib) (read_memory_entry_call ?key) ?w0))
           \<and> ((\<exists>prompt. agent_calls (snd (?resolve w)) = agent_calls w @ [(profile, prompt)])
              \<or> (\<exists>e. fst (create_agent agents profile
                             (logger INFO (''Calculating the expression list for step ''
                                             @ get_id self parent_id)
                                (snd (call (memory_func lib) (read_memory_entry_call ?key) ?w0)))) = Inl e
                      \<and> fst (?resolve w) = Inl e \<and> agent_calls (snd (?resolve w)) = agent_calls w))"
    if "(map_of (memory (store w)) ?key = None \<and> \<not> path_exists lib ?key (memory_dir (store w)))
          \<or> fst (read_memory_entry lib ?key (store w)) \<in> {Inr JNull, Inr (JList []), Inr (JStr no_entry)}"
  proof -
    from that never_written_reads_sentinel[of "store w" ?key lib]
    have "fst (read_memory_entry lib ?key (store w)) \<in> {Inr JNull, Inr (JList []), Inr (JStr no_entry)}"
      by auto
    with content have nf: "\<not> entry_found v" by (auto simp: entry_found_def)
    from computed[OF nf] have cw: "?computed ?w1" .
    have made: "(\<exists>prompt. agent_calls (snd (?resolve w)) = agent_calls w @ [(profile, prompt)])
              \<or> (\<exists>e. fst (create_agent agents profile
                             (logger INFO (''Calculating the expression list for step ''
                                             @ get_id self parent_id) ?w1)) = Inl e
                      \<and> fst (?resolve w) = Inl e \<and> agent_calls (snd (?resolve w)) = agent_calls w)"
    proof (cases "create_agent agents profile
                    (logger INFO (''Calculating the expression list for step '' @ get_id self parent_id) ?w1)")
      case (Pair c wa)
      show ?thesis
      proof (cases c)
        case (Inl e)
        with Pair cw show ?thesis by simp
      next
        case (Inr agent)
        with Pair cw show ?thesis by (auto split: prod.splits)
      qed
    qed
    from cw made show ?thesis unfolding c1 snd_conv by blast
  qed
  show "(let key = get_id self parent_id @ ''_expression_list'';
        resolve = get_expression_list self agents str summary prefix' (memory_func lib) profile ov parent_id;
        w0 = logger INFO (''Checking if expression list is calculated before or not for step ''
                            @ get_id self parent_id) w;
        computed = (\<lambda>w1.
          case create_agent agents profile
                 (logger INFO (''Calculating the expression list for step '' @ get_id self parent_id) w1) of
            (Inl e, wa) \<Rightarrow> resolve w = (Inl e, wa) \<and> agent_calls wa = agent_calls w
          | (Inr agent, wa) \<Rightarrow>
              (case replace_context_variables (expression_list_prompt self summary prefix' parent_id)
                      (memory_func lib) str ov wa of
                 (prompt, w3) \<Rightarrow>
                   agent_calls (snd (resolve w)) = agent_calls w @ [(profile, prompt)]
                   \<and> (case invoke_agent agent profile prompt w3 of
                         (Inl e, w4) \<Rightarrow> resolve w = (Inl e, w4)
                       | (Inr response, w4) \<Rightarrow>
                           (case call (memory_func lib) (read_memory_entry_call key)
                                   (logger INFO (''Reading the calculated expression list for step ''
                                                   @ get_id self parent_id)
                                      (logger INFO (''Calculating the expression list for task ''
                                                      @ get_id self parent_id @ '' completed'') w4)) of
                              (Inl e, w6) \<Rightarrow> False
                            | (Inr v', w6) \<Rightarrow>
                                (fst (resolve w) = Inl (Exception ''Failed to calculate expression_list''))
                                  = (\<not> entry_found v')
                                \<and> (entry_found v' \<longrightarrow> fst (resolve w) = Inr (texts v'))))))
    in (case call (memory_func lib) (read_memory_entry_call key) w0 of
          (Inl e, w1) \<Rightarrow> False
        | (Inr v, w1) \<Rightarrow>
            if entry_found v then resolve w = (Inr (texts v), w1) \<and> agent_calls w1 = agent_calls w
            else computed w1)
     \<and> (\<forall>xs w'. resolve w = (Inr xs, w') \<longrightarrow>
           fst (resolve w') = Inr xs \<and> agent_calls (snd (resolve w')) = agent_calls w')
     \<and> (\<forall>t. fst (read_memory_entry lib key (store w)) = Inr (JStr t) \<and> t \<noteq> no_entry \<longrightarrow>
           fst (resolve w) = Inr [JStr t] \<and> agent_calls (snd (resolve w)) = agent_calls w)
     \<and> (\<forall>x xs. fst (read_memory_entry lib key (store w)) = Inr (JList (map JStr (x # xs)))
                 \<and> x \<noteq> no_entry \<longrightarrow>
           fst (resolve w) = Inr (map JStr (x # xs)) \<and> agent_calls (snd (resolve w)) = agent_calls w)
     \<and> (\<forall>val. fst (read_memory_entry lib key (store w)) = Inr val \<longrightarrow>
           fst (call (memory_func lib) (read_memory_entry_call key) w0)
             = Inr \<lparr>content = convert_to_content lib val, isError = False\<rparr>)
     \<and> (\<forall>e. fst (read_memory_entry lib key (store w)) = Inl e \<longrightarrow>
           fst (call (memory_func lib) (read_memory_entry_call key) w0)
             = Inr \<lparr>content = [TextContent (Some (''Error executing tool read_memory_entry: '' @ str_exn e))],
                    isError = True\<rparr>
           \<and> fst (resolve w) = Inr [JStr (''Error executing tool read_memory_entry: '' @ str_exn e)]
           \<and> agent_calls (snd (resolve w)) = agent_calls w)
     \<and> ((map_of (memory (store w)) key = None \<and> \<not> path_exists lib key (memory_dir (store w)))
          \<or> fst (read_memory_entry lib key (store w)) \<in> {Inr JNull, Inr (JList []), Inr (JStr no_entry)} \<longrightarrow>
           computed (snd (call (memory_func lib) (read_memory_entry_call key) w0))
           \<and> ((\<exists>prompt. agent_calls (snd (resolve w)) = agent_calls w @ [(profile, prompt)])
              \<or> (\<exists>e. fst (create_agent agents profile
                             (logger INFO (''Calculating the expression list for step ''
                                             @ get_id self parent_id)
                                (snd (call (memory_func lib) (read_memory_entry_call key) w0)))) = Inl e
                      \<and> fst (resolve w) = Inl e \<and> agent_calls (snd (resolve w)) = agent_calls w))))"
    unfolding Let_def
    apply (intro conjI)
    subgoal by (rule first)
    subgoal using twice by blast
    subgoal using string by blast
    subgoal using stored by blast
    subgoal using held by blast
    subgoal using failed by blast
    subgoal using fresh by blast
    done
qed

text \<open>
  C2, amended, at concrete inputs: an agent that stores the list \<^verbatim>\<open>["a", "b"]\<close> (invoked once
  over two calls), an agent that stores nothing (the call raises), and a profile for which
  no agent can be made (the call raises that, and no agent is invoked).
\<close>

theorem expression_list_memoized_witness:
  "expression_list_func loop_step = None \<and> expression_list_func_with_params loop_step = None
   \<and> fst (get_expression_list loop_step storing_agent dumps [''Overview''] ''1''
             (memory_func example_library) ''p0'' Map.empty None fresh_world)
       = Inr [JStr ''a'', JStr ''b'']
   \<and> agent_calls (snd (get_expression_list loop_step storing_agent dumps [''Overview''] ''1''
             (memory_func example_library) ''p0'' Map.empty None fresh_world))
       = [(''p0'', expression_list_prompt loop_step [''Overview''] ''1'' None)]
   \<and> fst (get_expression_list loop_step storing_agent dumps [''Overview''] ''1''
             (memory_func example_library) ''p0'' Map.empty None
             (snd (get_expression_list loop_step storing_agent dumps [''Overview''] ''1''
                (memory_func example_library) ''p0'' Map.empty None fresh_world)))
       = Inr [JStr ''a'', JStr ''b'']
   \<and> agent_calls (snd (get_expression_list loop_step storing_agent dumps [''Overview''] ''1''
             (memory_func example_library) ''p0'' Map.empty None
             (snd (get_expression_list loop_step storing_agent dumps [''Overview''] ''1''
                (memory_func example_library) ''p0'' Map.empty None fresh_world))))
       = [(''p0'', expression_list_prompt loop_step [''Overview''] ''1'' None)]
   \<and> fst (get_expression_list loop_step idle_agent dumps [''Overview''] ''1''
             (memory_func example_library) ''p0'' Map.empty None fresh_world)
       = Inl (Exception ''Failed to calculate expression_list'')
   \<and> get_expression_list loop_step (\<lambda>profile_name s. (Inl (Exception ''no such profile''), s))
        dumps [''Overview''] ''1'' (memory_func example_library) ''p0'' Map.empty None fresh_world
       = (Inl (Exception ''no such profile''),
          fresh_world\<lparr>tool_calls := [read_memory_entry_call ''loop_expression_list''],
                      logs := [(INFO, ''Checking if expression list is calculated before or not for step loop''),
                               (INFO, ''Calculating the expression list for step loop'')]\<rparr>)"
proof -
  let ?run = "get_expression_list loop_step storing_agent dumps [''Overview''] ''1''
             (memory_func example_library) ''p0'' Map.empty None"
  have n: "expression_list_func loop_step = None" "expression_list_func_with_params loop_step = None"
    by (simp_all add: loop_step_def)
  have e1: "fst (?run fresh_world) = Inr [JStr ''a'', JStr ''b'']
      \<and> agent_calls (snd (?run fresh_world)) = [(''p0'', expression_list_prompt loop_step [''Overview''] ''1'' None)]"
    by (simp add: resolve_simps storing_agent_def del: dumps.simps)
  have e3: "fst (get_expression_list loop_step idle_agent dumps [''Overview''] ''1''
             (memory_func example_library) ''p0'' Map.empty None fresh_world)
       = Inl (Exception ''Failed to calculate expression_list'')"
    by (simp add: resolve_simps idle_agent_def del: dumps.simps)
  have e4: "get_expression_list loop_step (\<lambda>profile_name s. (Inl (Exception ''no such profile''), s))
        dumps [''Overview''] ''1'' (memory_func example_library) ''p0'' Map.empty None fresh_world
       = (Inl (Exception ''no such profile''),
          fresh_world\<lparr>tool_calls := [read_memory_entry_call ''loop_expression_list''],
                      logs := [(INFO, ''Checking if expression list is calculated before or not for step loop''),
                               (INFO, ''Calculating the expression list for step loop'')]\<rparr>)"
    by (simp add: resolve_simps del: dumps.simps)
  have again: "\<forall>xs w'. ?run fresh_world = (Inr xs, w') \<longrightarrow>
           fst (?run w') = Inr xs \<and> agent_calls (snd (?run w')) = agent_calls w'"
    using expression_list_memoized[where self = loop_step and agents = storing_agent and str = dumps
        and summary = "[''Overview'']" and prefix' = "''1''" and lib = example_library
        and profile = "''p0''" and ov = Map.empty and parent_id = None and w = fresh_world,
        unfolded Let_def, THEN mp, THEN conjunct2, THEN conjunct1] n
    by blast
  have "?run fresh_world = (Inr [JStr ''a'', JStr ''b''], snd (?run fresh_world))"
    using e1 by (metis prod.collapse)
  with again have "fst (?run (snd (?run fresh_world))) = Inr [JStr ''a'', JStr ''b'']
      \<and> agent_calls (snd (?run (snd (?run fresh_world)))) = agent_calls (snd (?run fresh_world))"
    by blast
  with n e1 e3 e4 show ?thesis by simp
qed

text \<open>
  The tasks of parallel mode: there is one per item, and the task at index \<open>i\<close> gets the item
  at \<open>i\<close>, the profile at \<open>(pid + i) mod P\<close> and the iteration number \<open>n + i\<close>; with the
  initial \<open>pid = 0\<close> and \<open>n = 1\<close>, iteration \<open>i + 1\<close> gets profile \<open>i mod P\<close>.
\<close>

lemma parallel_tasks_length:
  "parallel_tasks expression_list profiles pid n = Inr tasks \<Longrightarrow>
   length tasks = length expression_list"
  by (induction expression_list arbitrary: pid n tasks) (auto split: if_splits sum.splits)

lemma parallel_tasks_round_robin:
  "parallel_tasks expression_list profiles pid n = Inr tasks \<Longrightarrow> i < length expression_list \<Longrightarrow>
   tasks ! i = (expression_list ! i, profiles ! ((pid + i) mod length profiles), n + i)"
proof (induction expression_list arbitrary: pid n tasks i)
  case Nil
  then show ?case by simp
next
  case (Cons item expression_list)
  from Cons.prems(1) obtain rest where
    p: "pid < length profiles" and
    r: "parallel_tasks expression_list profiles ((pid + 1) mod length profiles) (n + 1) = Inr rest" and
    t: "tasks = (item, profiles ! pid, n) # rest"
    by (auto split: if_splits sum.splits)
  show ?case
  proof (cases i)
    case 0
    then show ?thesis using p t by simp
  next
    case (Suc j)
    then have "j < length expression_list" using Cons.prems(2) by simp
    from Cons.IH[OF r this] have "rest ! j =
      (expression_list ! j, profiles ! (((pid + 1) mod length profiles + j) mod length profiles), n + 1 + j)" .
    moreover have "((pid + 1) mod length profiles + j) mod length profiles = (pid + Suc j) mod length profiles"
      by (simp add: mod_add_left_eq)
    ultimately show ?thesis using t Suc by simp
  qed
qed

lemma parallel_tasks_total:
  "profiles \<noteq> [] \<Longrightarrow> pid < length profiles \<Longrightarrow> \<exists>tasks. parallel_tasks expression_list profiles pid n = Inr tasks"
proof (induction expression_list arbitrary: pid n)
  case Nil
  then show ?case by simp
next
  case (Cons item expression_list)
  have "(pid + 1) mod length profiles < length profiles"
    using Cons.prems(1) by simp
  from Cons.IH[OF Cons.prems(1) this, of "n + 1"] Cons.prems(2) show ?case
    by auto
qed

section \<open>Properties of the agent\<close>

lemma converse_loop_transient:
  "list_all transient faults \<Longrightarrow>
   converse_loop (faults @ os) t = converse_loop os (t + 5 * length faults)"
proof (induction faults arbitrary: t)
  case Nil
  then show ?case by simp
next
  case (Cons a faults)
  then show ?case by (cases a rule: transient.cases) (simp_all add: add.assoc)
qed

lemma converse_loop_exit:
  "\<not> transient out \<Longrightarrow>
   converse_loop (out # rest) t =
     (Some (case out of Raises e \<Rightarrow> Inl e | Returns r \<Rightarrow> Inr r), rest, t)"
  by (cases out rule: transient.cases) simp_all

lemma converse_loop_only_transient:
  "list_all transient faults \<Longrightarrow> converse_loop faults t = (None, [], t + 5 * length faults)"
  using converse_loop_transient[of faults "[]" t] by simp

text \<open>
  C6. However many throttling and model-timeout faults the provider raises in a row, the
  loop sleeps five seconds after each and calls again: a completion that follows is handled,
  with the user turn appended once; another fault that follows is raised to the caller, not
  retried; and while only such faults come, the call does not return.
\<close>

theorem invoke_retries_transient_faults:
  "list_all transient faults \<and> list_all json_serializable content' \<longrightarrow>
     invoke execute_tool content' (self\<lparr>client := faults @ Returns response # rest\<rparr>)
       = handle_response execute_tool response
           (self\<lparr>messages := messages self @ [User content'], client := rest,
                  slept := slept self + 5 * length faults\<rparr>)
     \<and> (\<not> transient (Raises e) \<longrightarrow>
          invoke execute_tool content' (self\<lparr>client := faults @ Raises e # rest\<rparr>)
            = Some (Inl e, self\<lparr>messages := messages self @ [User content'], client := rest,
                                slept := slept self + 5 * length faults\<rparr>))
     \<and> invoke execute_tool content' (self\<lparr>client := faults\<rparr>) = None"
proof (intro impI conjI; elim conjE)
  assume f: "list_all transient faults" and c: "list_all json_serializable content'"
  show "invoke execute_tool content' (self\<lparr>client := faults @ Returns response # rest\<rparr>)
       = handle_response execute_tool response
           (self\<lparr>messages := messages self @ [User content'], client := rest,
                  slept := slept self + 5 * length faults\<rparr>)"
    using c by (simp add: invoke.simps[of execute_tool content'] converse_loop_transient[OF f])
  show "invoke execute_tool content' (self\<lparr>client := faults\<rparr>) = None"
    using c by (simp add: invoke.simps[of execute_tool content'] converse_loop_only_transient[OF f])
  assume "\<not> transient (Raises e)"
  then show "invoke execute_tool content' (self\<lparr>client := faults @ Raises e # rest\<rparr>)
            = Some (Inl e, self\<lparr>messages := messages self @ [User content'], client := rest,
                                slept := slept self + 5 * length faults\<rparr>)"
    using c by (simp add: invoke.simps[of execute_tool content'] converse_loop_transient[OF f] converse_loop_exit)
qed

text \<open>
  C6, at concrete inputs: three transient faults, then a completion; then a fault that is
  not transient; then nothing more.
\<close>

theorem invoke_retries_transient_faults_witness:
  "list_all transient [Raises (ThrottlingException ''slow down''), Raises (ModelTimeoutException ''timed out''),
                       Raises (ThrottlingException ''slow down'')]
   \<and> list_all json_serializable [UserText ''hi'' :: json user_item]
   \<and> invoke no_tools [UserText ''hi'']
         (agent0\<lparr>client := [Raises (ThrottlingException ''slow down''), Raises (ModelTimeoutException ''timed out''),
                       Raises (ThrottlingException ''slow down'')] @ [Returns final_answer]\<rparr>)
       = Some (Inr (Some ''final''),
               agent0\<lparr>messages := [User [UserText ''hi''], Assistant [Text ''final'']], slept := 15\<rparr>)
   \<and> \<not> transient (Raises (ValueError ''bad request''))
   \<and> invoke no_tools [UserText ''hi'']
         (agent0\<lparr>client := [Raises (ThrottlingException ''slow down''), Raises (ModelTimeoutException ''timed out''),
                       Raises (ThrottlingException ''slow down'')] @ [Raises (ValueError ''bad request'')]\<rparr>)
       = Some (Inl (ValueError ''bad request''),
               agent0\<lparr>messages := [User [UserText ''hi'']], slept := 15\<rparr>)
   \<and> invoke no_tools [UserText ''hi'']
         (agent0\<lparr>client := [Raises (ThrottlingException ''slow down''), Raises (ModelTimeoutException ''timed out''),
                       Raises (ThrottlingException ''slow down'')]\<rparr>) = None"
  using invoke_retries_transient_faults
    [where faults = "[Raises (ThrottlingException ''slow down''), Raises (ModelTimeoutException ''timed out''),
          Raises (ThrottlingException ''slow down'')]"
       and content' = "[UserText ''hi'']" and execute_tool = no_tools and self = agent0
       and response = final_answer and rest = "[]" and e = "ValueError ''bad request''"]
  by (simp add: agent0_def final_answer_def final_text_def invoke.simps handle_response.simps)

text \<open>
  C5. What the code does where the claim says otherwise: when the first completion of an
  \<^verbatim>\<open>invoke\<close> stops at \<^verbatim>\<open>max_tokens\<close> and the call returns, it returns \<^verbatim>\<open>None\<close>, whatever the
  continued conversation ended with (the branch has no \<^verbatim>\<open>return\<close>).
\<close>

theorem invoke_max_tokens_returns_absent:
  "stopReason response = ''max_tokens''
   \<and> invoke execute_tool content' (self\<lparr>client := Returns response # rest\<rparr>) = Some (Inr text', self')
   \<longrightarrow> text' = None"
proof (intro impI, elim conjE)
  assume m: "stopReason response = ''max_tokens''"
    and i: "invoke execute_tool content' (self\<lparr>client := Returns response # rest\<rparr>) = Some (Inr text', self')"
  let ?self1 = "self\<lparr>messages := messages self @ [User content'], client := rest\<rparr>"
  have ser: "list_all json_serializable content'"
    using i by (auto simp: invoke.simps[of execute_tool content'] split: if_splits)
  then have h: "handle_response execute_tool response ?self1 = Some (Inr text', self')"
    using i by (simp add: invoke.simps[of execute_tool content'])
  let ?again = "invoke execute_tool [UserText ''Please continue.'']
      (?self1\<lparr>messages := messages ?self1 @ [Assistant (output_message_content response)],
               slept := slept ?self1 + 10\<rparr>)"
  have "handle_response execute_tool response ?self1 =
          (case ?again of None \<Rightarrow> None
           | Some (Inl e, self2) \<Rightarrow> Some (Inl e, self2)
           | Some (Inr _, self2) \<Rightarrow> Some (Inr None, self2))"
    using m by (simp add: handle_response.simps[of execute_tool response] Let_def)
  with h show "text' = None"
    by (auto split: option.splits sum.splits prod.splits)
qed

text \<open>
  C5, at a concrete input: the continuation ends with the text \<^verbatim>\<open>final\<close>, after a pause of
  ten seconds and the prompt \<^verbatim>\<open>Please continue.\<close> on the same transcript; \<^verbatim>\<open>invoke\<close> returns
  \<^verbatim>\<open>None\<close>.
\<close>

theorem invoke_max_tokens_returns_absent_witness:
  "stopReason cut_off = ''max_tokens''
   \<and> invoke no_tools [UserText ''hi''] (agent0\<lparr>client := [Returns cut_off, Returns final_answer]\<rparr>)
       = Some (Inr None,
               agent0\<lparr>messages := [User [UserText ''hi''], Assistant [Text ''part''],
                                    User [UserText ''Please continue.''], Assistant [Text ''final'']],
                      slept := 10\<rparr>)"
  using invoke_max_tokens_returns_absent[where response = cut_off and execute_tool = no_tools
      and content' = "[UserText ''hi'']" and self = agent0 and rest = "[Returns final_answer]"]
  by (simp add: invoke.simps handle_response.simps agent0_def cut_off_def final_answer_def final_text_def)

lemma run_tools_keeps_error:
  "\<not> list_all json_serializable tool_response \<Longrightarrow>
   run_tools execute_tool items tool_response t = (Inr tool_response', t') \<Longrightarrow>
   \<not> list_all json_serializable tool_response'"
  by (induction execute_tool items tool_response t rule: run_tools.induct)
     (auto split: prod.splits sum.splits exn.splits if_splits)

text \<open>
  C7. What the code does where the claim says otherwise: when the first tool request of a
  \<^verbatim>\<open>tool_use\<close> completion names an unknown tool, \<^verbatim>\<open>_handle_response\<close> raises a
  \<^verbatim>\<open>ValueError\<close>; no user turn is appended to the transcript and the provider is not called
  again. (The captured exception object is put into \<^verbatim>\<open>tool_response\<close>, and the first line of
  \<^verbatim>\<open>invoke\<close> cannot serialize it.)
\<close>

theorem unknown_tool_aborts:
  "stopReason response = ''tool_use''
   \<and> output_message_content response = ToolUse tool_request # items
   \<and> execute_tool tool_request (tools self) = (Inl (ValueError m), t1)
   \<and> prefix ''Unknown tool: '' m
   \<longrightarrow> (\<exists>e self'. handle_response execute_tool response self = Some (Inl (ValueError e), self')
          \<and> client self' = client self
          \<and> messages self' = messages self @ [Assistant (output_message_content response)])"
proof (intro impI, elim conjE)
  assume st: "stopReason response = ''tool_use''"
    and c: "output_message_content response = ToolUse tool_request # items"
    and x: "execute_tool tool_request (tools self) = (Inl (ValueError m), t1)"
    and u: "prefix ''Unknown tool: '' m"
  let ?self1 = "self\<lparr>messages := messages self @ [Assistant (output_message_content response)]\<rparr>"
  have rt: "run_tools execute_tool (output_message_content response) [] (tools ?self1)
      = run_tools execute_tool items [ErrorItem (ValueError m)] t1"
    using c x u by simp
  obtain r t' where r: "run_tools execute_tool items [ErrorItem (ValueError m)] t1 = (r, t')"
    by (cases "run_tools execute_tool items [ErrorItem (ValueError m)] t1")
  have h: "handle_response execute_tool response self =
      (case r of
         Inl e \<Rightarrow> Some (Inl (reraise e), ?self1\<lparr>tools := t'\<rparr>)
       | Inr tool_response \<Rightarrow>
           (case invoke execute_tool tool_response (?self1\<lparr>tools := t'\<rparr>) of
              None \<Rightarrow> None
            | Some (Inl e, self2) \<Rightarrow> Some (Inl (reraise e), self2)
            | Some (Inr text', self2) \<Rightarrow> Some (Inr text', self2)))"
    using st rt r by (simp add: handle_response.simps[of execute_tool response] Let_def)
  show "\<exists>e self'. handle_response execute_tool response self = Some (Inl (ValueError e), self')
          \<and> client self' = client self
          \<and> messages self' = messages self @ [Assistant (output_message_content response)]"
  proof (cases r)
    case (Inl e)
    then show ?thesis using h by (cases e) auto
  next
    case (Inr tool_response)
    have "\<not> list_all json_serializable tool_response"
      using run_tools_keeps_error[of "[ErrorItem (ValueError m)]" execute_tool items t1 tool_response t']
        r Inr by simp
    then have "invoke execute_tool tool_response (?self1\<lparr>tools := t'\<rparr>)
        = Some (Inl (TypeError ''Object of type ValueError is not JSON serializable''), ?self1\<lparr>tools := t'\<rparr>)"
      by (simp add: invoke.simps[of execute_tool tool_response])
    then show ?thesis using h Inr by simp
  qed
qed

text \<open>
  C7, at a concrete input: the model requests the tool \<^verbatim>\<open>nope\<close>, which is not registered.
\<close>

theorem unknown_tool_aborts_witness:
  "stopReason wants_tool = ''tool_use''
   \<and> output_message_content wants_tool
       = [ToolUse \<lparr>toolUseId = ''t1'', tool_name = ''nope'', tool_input = JNull\<rparr>]
   \<and> no_tools \<lparr>toolUseId = ''t1'', tool_name = ''nope'', tool_input = JNull\<rparr> (tools agent0)
       = (Inl (ValueError ''Unknown tool: nope''), ())
   \<and> prefix ''Unknown tool: '' ''Unknown tool: nope''
   \<and> invoke_with_prompt no_tools ''hi'' (agent0\<lparr>client := [Returns wants_tool, Returns final_answer]\<rparr>)
       = Some (Inl (ValueError
                 ''Failed to execute tool: Object of type ValueError is not JSON serializable''),
               agent0\<lparr>messages := [User [UserText ''hi''], Assistant (output_message_content wants_tool)],
                      client := [Returns final_answer]\<rparr>)"
  using unknown_tool_aborts[where response = wants_tool and execute_tool = no_tools and self = agent0
      and tool_request = "\<lparr>toolUseId = ''t1'', tool_name = ''nope'', tool_input = JNull\<rparr>"
      and items = "[]" and m = "''Unknown tool: nope''" and ?t1.0 = "()"]
  by (simp add: invoke_with_prompt_def invoke.simps handle_response.simps agent0_def wants_tool_def
        no_tools_def)

end
